theory Spec2Isabelle
  imports Complex_Main "HOL-Library.Word"
begin

unbundle bit_operations_syntax

section \<open>Values, errors and cookies\<close>

type_synonym byte = "8 word"
type_synonym bytes = "byte list"

text \<open>
  The exceptions that the module raises or lets through. \<open>UnboundLocalError\<close> is a
  subclass of \<open>NameError\<close>; \<open>UnicodeDecodeError\<close> and \<open>JSONDecodeError\<close> are
  subclasses of \<open>ValueError\<close>, so an \<open>except ValueError\<close> clause catches them.
  \<open>LZ4BlockError\<close>, the error of the lz4 block codec, is a subclass of \<open>Exception\<close>
  only.
\<close>

datatype error =
    BrowserCookieError
  | OperationalError
  | DatabaseError
  | OverflowError
  | OSError
  | ValueError
  | UnicodeDecodeError
  | JSONDecodeError
  | NameError
  | UnboundLocalError
  | AttributeError
  | TypeError
  | IndexError
  | KeyError
  | RuntimeError
  | LZ4BlockError

definition is_ValueError :: "error \<Rightarrow> bool" where
  "is_ValueError e = (e = ValueError \<or> e = UnicodeDecodeError \<or> e = JSONDecodeError)"

text \<open>
  Python values as far as the module handles them dynamically: what \<open>json.loads\<close>
  returns and what \<open>_decrypt\<close> returns. JSON \<open>true\<close>/\<open>false\<close> are the numbers 1/0
  (Python's \<open>==\<close> and \<open>hash\<close> identify them); a \<open>PDict\<close> lists the items of a dict.
\<close>

datatype pyval =
    PNone
  | PNum int
  | PStr string
  | PBytes bytes
  | PList "pyval list"
  | PDict "(string \<times> pyval) list"

section \<open>The streaming AES-CBC decrypter\<close>

text \<open>
  Modelled from the spec: the streaming decrypter \<open>pyaes.Decrypter\<close> over
  \<open>pyaes.AESModeOfOperationCBC\<close> is a library that is not under src/. The spec says the
  ciphertext is decrypted "under AES-128-CBC with the derived key and fixed IV, in two
  halves fed sequentially into the cipher" with the default (PKCS7) padding. The feeder
  keeps the last 16 bytes back until the final call, decrypts every complete block
  before them, chains each block with the previous ciphertext block, and strips the
  padding from the last block. The AES block function \<open>D\<close> (already bound to the key) is
  a parameter.
\<close>

text \<open>Modelled from the spec: how many bytes the CBC mode takes at once, a block of 16 or none.\<close>

definition block_can_consume :: "nat \<Rightarrow> nat" where
  "block_can_consume sz = (if sz \<ge> 16 then 16 else 0)"

text \<open>
  Modelled from the spec: AES-CBC on one block, the block decrypted and combined with the
  previous ciphertext block, which the block then replaces.
\<close>

definition CBC_decrypt :: "(bytes \<Rightarrow> bytes) \<Rightarrow> bytes \<Rightarrow> bytes \<Rightarrow> error + bytes \<times> bytes" where
  "CBC_decrypt D last_cipherblock ciphertext =
     (if length ciphertext \<noteq> 16 then Inl ValueError
      else Inr (map (\<lambda>(p, l). p XOR l) (zip (D ciphertext) last_cipherblock), ciphertext))"

text \<open>Modelled from the spec: the last byte of the last block counts the padding bytes to drop.\<close>

definition strip_PKCS7_padding :: "bytes \<Rightarrow> error + bytes" where
  "strip_PKCS7_padding data =
     (if length data mod 16 \<noteq> 0 then Inl ValueError
      else if data = [] then Inl IndexError
      else let pad = unat (last data) in
        if pad > 16 then Inl ValueError
        else if pad = 0 then Inr []
        else Inr (take (length data - pad) data))"

text \<open>The state of a feeder: the bytes kept back and the CBC chaining block.\<close>

record Decrypter =
  buffer :: bytes
  last_cipherblock :: bytes

text \<open>
  Modelled from the spec: one call of the feeder decrypts the complete blocks of its
  buffer, all but the last 16 bytes.
\<close>

function feed_loop :: "(bytes \<Rightarrow> bytes) \<Rightarrow> bytes \<Rightarrow> bytes \<Rightarrow> bytes \<Rightarrow> error + bytes \<times> Decrypter" where
  "feed_loop D buf lst result =
     (if length buf > 16 then
        (if block_can_consume (length buf - 16) = 0
         then Inr (result, \<lparr>buffer = buf, last_cipherblock = lst\<rparr>)
         else (case CBC_decrypt D lst (take (block_can_consume (length buf - 16)) buf) of
                 Inl e \<Rightarrow> Inl e
               | Inr (plain, lst') \<Rightarrow>
                   feed_loop D (drop (block_can_consume (length buf - 16)) buf) lst'
                     (result @ plain)))
      else Inr (result, \<lparr>buffer = buf, last_cipherblock = lst\<rparr>))"
  by pat_completeness auto
termination
  by (relation "measure (\<lambda>(D, buf, lst, result). length buf)")
     (auto simp: block_can_consume_def split: if_splits)

declare feed_loop.simps [simp del]

text \<open>Modelled from the spec: feeding data appends it to the buffer and runs the loop.\<close>

definition feed :: "(bytes \<Rightarrow> bytes) \<Rightarrow> Decrypter \<Rightarrow> bytes \<Rightarrow> error + bytes \<times> Decrypter" where
  "feed D st data = feed_loop D (buffer st @ data) (last_cipherblock st) []"

text \<open>
  Modelled from the spec: the final call decrypts the block kept back, which must be
  exactly 16 bytes, and strips the padding.
\<close>

definition feed_final :: "(bytes \<Rightarrow> bytes) \<Rightarrow> Decrypter \<Rightarrow> error + bytes" where
  "feed_final D st =
     (case CBC_decrypt D (last_cipherblock st) (buffer st) of
        Inl e \<Rightarrow> Inl e
      | Inr (plain, lst') \<Rightarrow> strip_PKCS7_padding plain)"

text \<open>Modelled from the spec: a new decrypter has an empty buffer and chains from the IV.\<close>

definition new_Decrypter :: "bytes \<Rightarrow> Decrypter" where
  "new_Decrypter iv = \<lparr>buffer = [], last_cipherblock = iv\<rparr>"

text \<open>
  Lines 210 to 215 of \<open>Chrome._decrypt\<close>: the first half, the second half, then the
  final call, the three outputs concatenated.
\<close>

definition decrypt_two_feeds :: "(bytes \<Rightarrow> bytes) \<Rightarrow> bytes \<Rightarrow> bytes \<Rightarrow> error + bytes" where
  "decrypt_two_feeds D iv encrypted_value =
     (let encrypted_value_half_len = length encrypted_value div 2 in
      case feed D (new_Decrypter iv) (take encrypted_value_half_len encrypted_value) of
        Inl e \<Rightarrow> Inl e
      | Inr (d1, st1) \<Rightarrow>
          (case feed D st1 (drop encrypted_value_half_len encrypted_value) of
             Inl e \<Rightarrow> Inl e
           | Inr (d2, st2) \<Rightarrow>
               (case feed_final D st2 of
                  Inl e \<Rightarrow> Inl e
                | Inr d3 \<Rightarrow> Inr (d1 @ d2 @ d3))))"

text \<open>
  Modelled from the spec: the "single decrypt call", the whole ciphertext given to the
  decrypter at once, then the final call.
\<close>

definition decrypt_single_call :: "(bytes \<Rightarrow> bytes) \<Rightarrow> bytes \<Rightarrow> bytes \<Rightarrow> error + bytes" where
  "decrypt_single_call D iv encrypted_value =
     (case feed D (new_Decrypter iv) encrypted_value of
        Inl e \<Rightarrow> Inl e
      | Inr (d1, st1) \<Rightarrow>
          (case feed_final D st1 of
             Inl e \<Rightarrow> Inl e
           | Inr d2 \<Rightarrow> Inr (d1 @ d2)))"

section \<open>The world outside the module\<close>

text \<open>
  Everything the module reads from the machine or asks of a library is a field of
  \<open>world\<close>: the platform, the environment and file system, the registry policy, the
  key ring, the codecs and \<open>str.lower\<close>, the key derivation and the AES block function,
  the SQLite engine, the C library's \<open>localtime\<close>, the rounding of a real number to a
  Python float, the clock, and the parsers of profiles.ini and of JSON.
\<close>

datatype platform = Darwin | Linux | Win32 | OtherPlatform

datatype reg_type = REG_SZ | REG_EXPAND_SZ | REG_OTHER

text \<open>
  \<open>localtime\<close> takes a POSIX time and gives the local wall-clock reading, as the seconds
  from 1970-01-01 00:00:00 to that reading; it can fail with \<open>OverflowError\<close> (the time
  does not fit the platform's \<open>time_t\<close>) or with \<open>OSError\<close>.
\<close>

datatype tm_error = TmOverflowError | TmOSError

text \<open>
  A row of Chrome's \<open>cookies\<close> table with the column types of Chrome's schema
  (\<open>host_key TEXT\<close>, \<open>path TEXT\<close>, \<open>expires_utc INTEGER NOT NULL\<close>, \<open>name TEXT\<close>,
  \<open>value TEXT\<close>, \<open>encrypted_value BLOB\<close>); the flag column stores 0 or 1 and is a
  \<open>bool\<close> here. The table exposes the flag column under the name \<open>secure\<close>, under
  the name \<open>is_secure\<close>, under both or under neither.
\<close>

record chrome_item =
  host_key :: string
  item_path :: string
  item_secure :: bool
  expires_utc :: int
  item_name :: string
  item_value :: string
  encrypted_value :: bytes

record cookies_table =
  has_secure :: bool
  has_is_secure :: bool
  cookies_rows :: "chrome_item list"

text \<open>A row of Firefox's \<open>moz_cookies\<close> table.\<close>

record moz_item =
  moz_host :: string
  moz_path :: string
  moz_isSecure :: bool
  moz_expiry :: int
  moz_name :: string
  moz_value :: string

datatype db = NotADatabase | Database "cookies_table option" "moz_item list option"

text \<open>
  A section of profiles.ini as \<open>configparser\<close> gives it: its name and its options, the
  keys in lower case, the defaults of the file included.
\<close>

type_synonym ini_section = "string \<times> (string \<times> string) list"

record world =
  platform :: platform
  getenv :: "string \<Rightarrow> string option"
  expanduser :: "string \<Rightarrow> string"
  expandvars :: "string \<Rightarrow> string"
  path_join :: "string \<Rightarrow> string \<Rightarrow> string"
  dirname :: "string \<Rightarrow> string"
  glob :: "string \<Rightarrow> string list"
  files :: "string \<rightharpoonup> bytes"
  policy_UserDataDir :: "(reg_type \<times> string) option"
  keyring_get_password :: "string option"
  encode_utf8 :: "string \<Rightarrow> bytes"
  decode_utf8 :: "bytes \<Rightarrow> string option"
  str_lower :: "string \<Rightarrow> string"
  PBKDF2 :: "bytes \<Rightarrow> bytes \<Rightarrow> nat \<Rightarrow> nat \<Rightarrow> bytes"
  AES_decrypt :: "bytes \<Rightarrow> bytes \<Rightarrow> bytes"
  CryptUnprotectData :: "bytes \<Rightarrow> bytes option"
  sqlite3_connect :: "bytes \<Rightarrow> db"
  sql_like :: "string \<Rightarrow> error + (string \<Rightarrow> bool)"
  localtime :: "int \<Rightarrow> tm_error + int"
  double :: "real \<Rightarrow> real"
  time_time :: "nat \<Rightarrow> int"
  config_read :: "string list \<Rightarrow> ini_section list"
  json_loads :: "string \<Rightarrow> error + pyval"
  json_loads_bytes :: "bytes \<Rightarrow> error + pyval"
  lz4_block_decompress :: "bytes \<Rightarrow> error + bytes"

text \<open>\<open>a or b\<close> on strings, and \<open>os.getenv(name, '')\<close>.\<close>

definition str_or :: "string \<Rightarrow> string \<Rightarrow> string" where
  "str_or a b = (if a \<noteq> [] then a else b)"

definition getenv_default :: "world \<Rightarrow> string \<Rightarrow> string" where
  "getenv_default w n = (case getenv w n of None \<Rightarrow> [] | Some v \<Rightarrow> v)"

section \<open>Cookies and the cookie jar\<close>

text \<open>
  The fields of \<open>http.cookiejar.Cookie\<close> that \<open>create_cookie\<close> does not fix.
  \<open>cookie_expires\<close> is \<open>None\<close> for a cookie with no fixed expiry. The constructor
  stores the domain in lower case.
\<close>

record Cookie =
  cookie_name :: pyval
  cookie_value :: pyval
  cookie_domain :: string
  cookie_domain_initial_dot :: bool
  cookie_path :: pyval
  cookie_secure :: bool
  cookie_expires :: "int option"

text \<open>
  The values that reach the \<open>expires\<close> argument: an int, a float, or the decimal
  string of an int. The constructor of \<open>Cookie\<close> stores \<open>int(float(expires))\<close>;
  \<open>int\<close> of a float truncates towards zero.
\<close>

datatype expires_arg = ExpiresInt int | ExpiresFloat real | ExpiresStr int

definition py_int :: "real \<Rightarrow> int" where
  "py_int x = (if x \<ge> 0 then \<lfloor>x\<rfloor> else \<lceil>x\<rceil>)"

definition int_float :: "world \<Rightarrow> expires_arg \<Rightarrow> int" where
  "int_float w x = (case x of
       ExpiresInt n \<Rightarrow> py_int (double w (of_int n))
     | ExpiresFloat f \<Rightarrow> py_int f
     | ExpiresStr n \<Rightarrow> py_int (double w (of_int n)))"

definition startswith_dot :: "pyval \<Rightarrow> error + bool" where
  "startswith_dot host = (case host of
       PStr h \<Rightarrow> Inr (take 1 h = ''.'')
     | PBytes b \<Rightarrow> Inl TypeError
     | _ \<Rightarrow> Inl AttributeError)"

definition create_cookie ::
  "world \<Rightarrow> pyval \<Rightarrow> pyval \<Rightarrow> bool \<Rightarrow> expires_arg \<Rightarrow> pyval \<Rightarrow> pyval \<Rightarrow> error + Cookie" where
  "create_cookie w host path secure expires name val =
     (case startswith_dot host of
        Inl e \<Rightarrow> Inl e
      | Inr dot \<Rightarrow>
          Inr \<lparr>cookie_name = name, cookie_value = val,
               cookie_domain = (case host of PStr h \<Rightarrow> str_lower w h | _ \<Rightarrow> []),
               cookie_domain_initial_dot = dot, cookie_path = path,
               cookie_secure = secure, cookie_expires = Some (int_float w expires)\<rparr>)"

text \<open>
  A \<open>CookieJar\<close> keeps one cookie for each domain, path and name; a list or a dict is
  not hashable and cannot be a key.
\<close>

type_synonym jar = "string \<times> pyval \<times> pyval \<rightharpoonup> Cookie"

fun hashable :: "pyval \<Rightarrow> bool" where
  "hashable (PList xs) = False"
| "hashable (PDict kvs) = False"
| "hashable v = True"

definition cookie_key :: "Cookie \<Rightarrow> string \<times> pyval \<times> pyval" where
  "cookie_key c = (cookie_domain c, cookie_path c, cookie_name c)"

definition set_cookie :: "jar \<Rightarrow> Cookie \<Rightarrow> error + jar" where
  "set_cookie cj c =
     (if hashable (cookie_path c) \<and> hashable (cookie_name c)
      then Inr (cj(cookie_key c \<mapsto> c)) else Inl TypeError)"

section \<open>Snapshots and the registry policy\<close>

definition create_local_copy :: "world \<Rightarrow> string \<Rightarrow> error + bytes" where
  "create_local_copy w cookie_file =
     (case files w cookie_file of
        Some content \<Rightarrow> Inr content
      | None \<Rightarrow> Inl BrowserCookieError)"

definition windows_group_policy_path :: "world \<Rightarrow> string option" where
  "windows_group_policy_path w =
     (case policy_UserDataDir w of
        None \<Rightarrow> None
      | Some (type_, user_data_dir) \<Rightarrow>
          if type_ = REG_EXPAND_SZ
          then Some (path_join w (path_join w (expandvars w user_data_dir) ''Default'') ''Cookies'')
          else if type_ \<noteq> REG_SZ then None
          else Some (path_join w (path_join w user_data_dir ''Default'') ''Cookies''))"

definition crypt_unprotect_data :: "world \<Rightarrow> bytes \<Rightarrow> error + bytes" where
  "crypt_unprotect_data w cipher_text =
     (case CryptUnprotectData w cipher_text of
        None \<Rightarrow> Inl RuntimeError
      | Some blob_out \<Rightarrow> Inr (takeWhile (\<lambda>b. b \<noteq> 0) blob_out))"

section \<open>Chrome: decryption\<close>

record Chrome =
  chrome_salt :: bytes
  chrome_iv :: bytes
  chrome_length :: nat
  chrome_domain_name :: string
  chrome_key :: "bytes option"
  chrome_tmp_cookie_file :: bytes

definition v10 :: bytes where
  "v10 = [0x76, 0x31, 0x30]"

definition decode :: "world \<Rightarrow> bytes \<Rightarrow> error + pyval" where
  "decode w data = (case decode_utf8 w data of
       None \<Rightarrow> Inl UnicodeDecodeError
     | Some s \<Rightarrow> Inr (PStr s))"

text \<open>
  \<open>_decrypt_windows_chrome\<close>. The column \<open>encrypted_value\<close> holds bytes, and bytes
  never equal the string \<open>""\<close>, so the second test of the source is always false.
\<close>

definition Chrome_decrypt_windows_chrome :: "world \<Rightarrow> string \<Rightarrow> bytes \<Rightarrow> error + pyval" where
  "Chrome_decrypt_windows_chrome w val encrypted =
     (if length val \<noteq> 0 then Inr (PStr val)
      else (case crypt_unprotect_data w encrypted of
              Inl e \<Rightarrow> Inl e
            | Inr data \<Rightarrow> decode w data))"

text \<open>
  \<open>_decrypt\<close>. \<open>pyaes\<close> refuses a key whose length is not 16, 24 or 32, and an object
  built on Windows has no \<open>key\<close> attribute.
\<close>

definition Chrome_decrypt :: "world \<Rightarrow> Chrome \<Rightarrow> string \<Rightarrow> bytes \<Rightarrow> error + pyval" where
  "Chrome_decrypt w self val encrypted =
     (if platform w = Win32 then Chrome_decrypt_windows_chrome w val encrypted
      else if val \<noteq> [] \<or> take 3 encrypted \<noteq> v10 then Inr (PStr val)
      else (case chrome_key self of
              None \<Rightarrow> Inl AttributeError
            | Some k \<Rightarrow>
                if length k \<notin> {16, 24, 32} \<or> length (chrome_iv self) \<noteq> 16 then Inl ValueError
                else (case decrypt_two_feeds (AES_decrypt w k) (chrome_iv self) (drop 3 encrypted) of
                        Inl e \<Rightarrow> Inl e
                      | Inr decrypted \<Rightarrow> decode w decrypted)))"

section \<open>Chrome: locating the store\<close>

text \<open>
  The value of the Windows chain of \<open>or\<close> is a string or a list of paths. The paths
  below are the literals of the source; \<open>backslash\<close> is the character with code 92.
\<close>

datatype file_choice = FileStr string | FileList "string list"

definition backslash :: string where
  "backslash = [CHR 0x5C]"

definition chrome_windows_local :: string where
  "chrome_windows_local = ''..'' @ backslash @ ''Local'' @ backslash @ ''Google'' @ backslash
     @ ''Chrome'' @ backslash @ ''User Data'' @ backslash @ ''Default'' @ backslash @ ''Cookies''"

definition chrome_windows_default :: string where
  "chrome_windows_default = ''Google'' @ backslash @ ''Chrome'' @ backslash @ ''User Data''
     @ backslash @ ''Default'' @ backslash @ ''Cookies''"

definition chrome_windows_globs :: "world \<Rightarrow> file_choice" where
  "chrome_windows_globs w =
     (if glob w (path_join w (getenv_default w ''APPDATA'') chrome_windows_local) \<noteq> []
      then FileList (glob w (path_join w (getenv_default w ''APPDATA'') chrome_windows_local))
      else if glob w (path_join w (getenv_default w ''LOCALAPPDATA'') chrome_windows_default) \<noteq> []
      then FileList (glob w (path_join w (getenv_default w ''LOCALAPPDATA'') chrome_windows_default))
      else FileList (glob w (path_join w (getenv_default w ''APPDATA'') chrome_windows_default)))"

definition chrome_windows_cookie_file :: "world \<Rightarrow> string \<Rightarrow> file_choice" where
  "chrome_windows_cookie_file w cookie_file =
     (if cookie_file \<noteq> [] then FileStr cookie_file
      else (case windows_group_policy_path w of
              None \<Rightarrow> chrome_windows_globs w
            | Some p \<Rightarrow> if p \<noteq> [] then FileStr p else chrome_windows_globs w))"

text \<open>
  \<open>Chrome.__init__\<close>. The argument \<open>cookie_file\<close> is \<open>None\<close> or a string, and both
  \<open>None\<close> and the empty string are false. The object keeps the content of the snapshot.
\<close>

definition chrome_salt_literal :: bytes where
  "chrome_salt_literal = [0x73, 0x61, 0x6C, 0x74, 0x79, 0x73, 0x61, 0x6C, 0x74]"

definition chrome_pick_file :: "world \<Rightarrow> file_choice \<Rightarrow> error + bytes" where
  "chrome_pick_file w cookie_file =
     (case cookie_file of
        FileStr f \<Rightarrow> create_local_copy w f
      | FileList fs \<Rightarrow>
          (case fs of
             [] \<Rightarrow> Inl BrowserCookieError
           | f # _ \<Rightarrow> create_local_copy w f))"

definition new_Chrome :: "string \<Rightarrow> bytes option \<Rightarrow> bytes \<Rightarrow> Chrome" where
  "new_Chrome domain_name k tmp =
     \<lparr>chrome_salt = chrome_salt_literal, chrome_iv = replicate 16 0x20, chrome_length = 16,
      chrome_domain_name = domain_name, chrome_key = k, chrome_tmp_cookie_file = tmp\<rparr>"

definition Chrome_init :: "world \<Rightarrow> string option \<Rightarrow> string \<Rightarrow> error + Chrome" where
  "Chrome_init w cookie_file domain_name =
     (let cf = (case cookie_file of None \<Rightarrow> [] | Some f \<Rightarrow> f) in
      case platform w of
        Darwin \<Rightarrow>
          (case keyring_get_password w of
             None \<Rightarrow> Inl AttributeError
           | Some my_pass \<Rightarrow>
               (case chrome_pick_file w (FileStr (str_or cf
                        (expanduser w ''~/Library/Application Support/Google/Chrome/Default/Cookies''))) of
                  Inl e \<Rightarrow> Inl e
                | Inr tmp \<Rightarrow>
                    Inr (new_Chrome domain_name
                          (Some (PBKDF2 w (encode_utf8 w my_pass) chrome_salt_literal 1003 16)) tmp)))
      | Linux \<Rightarrow>
          (case chrome_pick_file w (FileStr
                  (str_or (str_or (str_or cf
                     (expanduser w ''~/.config/google-chrome/Default/Cookies''))
                     (expanduser w ''~/.config/chromium/Default/Cookies''))
                     (expanduser w ''~/.config/google-chrome-beta/Default/Cookies''))) of
             Inl e \<Rightarrow> Inl e
           | Inr tmp \<Rightarrow>
               Inr (new_Chrome domain_name
                     (Some (PBKDF2 w (encode_utf8 w ''peanuts'') chrome_salt_literal 1 16)) tmp))
      | Win32 \<Rightarrow>
          (case chrome_pick_file w (chrome_windows_cookie_file w cf) of
             Inl e \<Rightarrow> Inl e
           | Inr tmp \<Rightarrow> Inr (new_Chrome domain_name None tmp))
      | OtherPlatform \<Rightarrow> Inl BrowserCookieError)"

section \<open>Chrome: reading the store\<close>

text \<open>
  The two queries of \<open>Chrome.load\<close> differ in the name of the flag column: \<open>secure\<close>
  (Chrome up to 55) and \<open>is_secure\<close> (Chrome 56 and later). \<open>sql_like w d\<close> is the
  engine's reading of the clause \<open>host_key like "%d%"\<close>, or the error it raises on the
  text of the statement.
\<close>

datatype dialect = Legacy | Newer

definition has_column :: "cookies_table \<Rightarrow> dialect \<Rightarrow> bool" where
  "has_column t d = (case d of Legacy \<Rightarrow> has_secure t | Newer \<Rightarrow> has_is_secure t)"

definition execute_cookies :: "world \<Rightarrow> db \<Rightarrow> dialect \<Rightarrow> string \<Rightarrow> error + chrome_item list" where
  "execute_cookies w con d domain_name =
     (case con of
        NotADatabase \<Rightarrow> Inl DatabaseError
      | Database cookies moz \<Rightarrow>
          (case sql_like w domain_name of
             Inl e \<Rightarrow> Inl e
           | Inr matches \<Rightarrow>
               (case cookies of
                  None \<Rightarrow> Inl OperationalError
                | Some t \<Rightarrow>
                    if has_column t d
                    then Inr (filter (\<lambda>item. matches (host_key item)) (cookies_rows t))
                    else Inl OperationalError)))"

text \<open>
  The \<open>try\<close>/\<open>except sqlite3.OperationalError\<close> of \<open>Chrome.load\<close>, with the list of
  the queries issued, in order.
\<close>

definition Chrome_query :: "world \<Rightarrow> db \<Rightarrow> string \<Rightarrow> dialect list \<times> (error + chrome_item list)" where
  "Chrome_query w con domain_name =
     (case execute_cookies w con Legacy domain_name of
        Inr rows \<Rightarrow> ([Legacy], Inr rows)
      | Inl e \<Rightarrow>
          if e = OperationalError
          then ([Legacy, Newer], execute_cookies w con Newer domain_name)
          else ([Legacy], Inl e))"

section \<open>Chrome: the expiry timestamp\<close>

text \<open>
  \<open>datetime\<close> and \<open>timedelta\<close> of the standard library: a date is its proleptic
  Gregorian ordinal (1 is 0001-01-01, \<open>MAXORDINAL\<close> is 9999-12-31), a time of day is
  seconds and microseconds. Building a \<open>timedelta\<close> of more than 999999999 days and
  leaving the range of dates both raise \<open>OverflowError\<close>.
\<close>

definition is_leap :: "int \<Rightarrow> bool" where
  "is_leap year = (year mod 4 = 0 \<and> (year mod 100 \<noteq> 0 \<or> year mod 400 = 0))"

definition days_before_year :: "int \<Rightarrow> int" where
  "days_before_year year = (let y = year - 1 in y * 365 + y div 4 - y div 100 + y div 400)"

definition DAYS_BEFORE_MONTH :: "int list" where
  "DAYS_BEFORE_MONTH = [-1, 0, 31, 59, 90, 120, 151, 181, 212, 243, 273, 304, 334]"

definition days_before_month :: "int \<Rightarrow> nat \<Rightarrow> int" where
  "days_before_month year month =
     DAYS_BEFORE_MONTH ! month + (if month > 2 \<and> is_leap year then 1 else 0)"

definition ymd2ord :: "int \<Rightarrow> nat \<Rightarrow> int \<Rightarrow> int" where
  "ymd2ord year month day = days_before_year year + days_before_month year month + day"

definition MAXORDINAL :: int where
  "MAXORDINAL = 3652059"

record datetime =
  dt_ordinal :: int
  dt_second :: int
  dt_microsecond :: int

record timedelta =
  td_days :: int
  td_seconds :: int
  td_microseconds :: int

definition epoch_start :: datetime where
  "epoch_start = \<lparr>dt_ordinal = ymd2ord 1601 1 1, dt_second = 0, dt_microsecond = 0\<rparr>"

definition timedelta_microseconds :: "int \<Rightarrow> error + timedelta" where
  "timedelta_microseconds us =
     (let s = us div 1000000; d = s div 86400 in
      if \<bar>d\<bar> > 999999999 then Inl OverflowError
      else Inr \<lparr>td_days = d, td_seconds = s mod 86400, td_microseconds = us mod 1000000\<rparr>)"

definition datetime_add :: "datetime \<Rightarrow> timedelta \<Rightarrow> error + datetime" where
  "datetime_add dt delta =
     (let us = dt_microsecond dt + td_microseconds delta;
          s = dt_second dt + td_seconds delta + us div 1000000;
          d = dt_ordinal dt + td_days delta + s div 86400 in
      if d < 1 \<or> d > MAXORDINAL then Inl OverflowError
      else Inr \<lparr>dt_ordinal = d, dt_second = s mod 86400, dt_microsecond = us mod 1000000\<rparr>)"

text \<open>
  \<open>timestamp()\<close> of a datetime without a time zone reads it as local time and solves
  \<open>t = local(u)\<close> for the POSIX time \<open>u\<close>, as \<open>local_to_seconds\<close> of the C
  implementation does (with \<open>fold = 0\<close>). Times are counted in seconds from 1970-01-01
  00:00:00. \<open>local\<close> asks \<open>localtime\<close> for the wall-clock reading and turns it back into
  seconds with \<open>utc_to_seconds\<close>, which raises \<open>ValueError\<close> when the year of the
  reading is not within 1 to 9999, that is when its day is not within the ordinals 1 to
  \<open>MAXORDINAL\<close>. The result is the float \<open>seconds + microsecond / 1e6\<close>.
\<close>

definition tm_error_to_error :: "tm_error \<Rightarrow> error" where
  "tm_error_to_error e = (case e of TmOverflowError \<Rightarrow> OverflowError | TmOSError \<Rightarrow> OSError)"

definition wall_clock_seconds :: "datetime \<Rightarrow> int" where
  "wall_clock_seconds dt = (dt_ordinal dt - ymd2ord 1970 1 1) * 86400 + dt_second dt"

definition year_in_range :: "int \<Rightarrow> bool" where
  "year_in_range s =
     (1 \<le> ymd2ord 1970 1 1 + s div 86400 \<and> ymd2ord 1970 1 1 + s div 86400 \<le> MAXORDINAL)"

definition local_time :: "world \<Rightarrow> int \<Rightarrow> error + int" where
  "local_time w u =
     (case localtime w u of
        Inl e \<Rightarrow> Inl (tm_error_to_error e)
      | Inr lt \<Rightarrow> if year_in_range lt then Inr lt else Inl ValueError)"

definition max_fold_seconds :: int where
  "max_fold_seconds = 24 * 3600"

definition local_to_seconds_second :: "world \<Rightarrow> int \<Rightarrow> int \<Rightarrow> int \<Rightarrow> int \<Rightarrow> error + int" where
  "local_to_seconds_second w t u1 t1 b =
     (let u2 = t - b in
      case local_time w u2 of
        Inl e \<Rightarrow> Inl e
      | Inr t2 \<Rightarrow>
          if t2 = t then Inr u2
          else if t1 = t then Inr u1
          else Inr (max u1 u2))"

definition local_to_seconds :: "world \<Rightarrow> int \<Rightarrow> error + int" where
  "local_to_seconds w t =
     (case local_time w t of
        Inl e \<Rightarrow> Inl e
      | Inr lt \<Rightarrow>
          (let a = lt - t; u1 = t - a in
           case local_time w u1 of
             Inl e \<Rightarrow> Inl e
           | Inr t1 \<Rightarrow>
               if t1 = t then
                 (case local_time w (u1 - max_fold_seconds) of
                    Inl e \<Rightarrow> Inl e
                  | Inr lt2 \<Rightarrow>
                      if a = lt2 - (u1 - max_fold_seconds) then Inr u1
                      else local_to_seconds_second w t u1 t1 (lt2 - (u1 - max_fold_seconds)))
               else local_to_seconds_second w t u1 t1 (t1 - u1)))"

definition timestamp :: "world \<Rightarrow> datetime \<Rightarrow> error + real" where
  "timestamp w dt =
     (case local_to_seconds w (wall_clock_seconds dt) of
        Inl e \<Rightarrow> Inl e
      | Inr seconds \<Rightarrow>
          Inr (double w (of_int seconds + double w (of_int (dt_microsecond dt) / 1000000))))"

text \<open>Lines 171 to 175 of \<open>Chrome.load\<close>: the value bound to \<open>expires\<close>.\<close>

definition Chrome_expires :: "world \<Rightarrow> int \<Rightarrow> error + expires_arg" where
  "Chrome_expires w item3 =
     (if item3 \<noteq> 0 then
        (case timedelta_microseconds item3 of
           Inl e \<Rightarrow> Inl e
         | Inr delta \<Rightarrow>
             (case datetime_add epoch_start delta of
                Inl e \<Rightarrow> Inl e
              | Inr expires \<Rightarrow>
                  (case timestamp w expires of
                     Inl e \<Rightarrow> Inl e
                   | Inr ts \<Rightarrow> Inr (ExpiresFloat ts))))
      else Inr (ExpiresInt item3))"

section \<open>Chrome: the batch of rows\<close>

definition Chrome_item_cookie :: "world \<Rightarrow> Chrome \<Rightarrow> chrome_item \<Rightarrow> error + Cookie" where
  "Chrome_item_cookie w self item =
     (case Chrome_expires w (expires_utc item) of
        Inl e \<Rightarrow> Inl e
      | Inr expires \<Rightarrow>
          (case Chrome_decrypt w self (item_value item) (encrypted_value item) of
             Inl e \<Rightarrow> Inl e
           | Inr v \<Rightarrow>
               create_cookie w (PStr (host_key item)) (PStr (item_path item)) (item_secure item)
                 expires (PStr (item_name item)) v))"

definition Chrome_item_step :: "world \<Rightarrow> Chrome \<Rightarrow> jar \<Rightarrow> chrome_item \<Rightarrow> error + jar" where
  "Chrome_item_step w self cj item =
     (case Chrome_item_cookie w self item of
        Inl e \<Rightarrow> Inl e
      | Inr c \<Rightarrow> set_cookie cj c)"

text \<open>The loop over the rows; \<open>OverflowError\<close> and \<open>OSError\<close> skip the row.\<close>

fun Chrome_items :: "world \<Rightarrow> Chrome \<Rightarrow> jar \<Rightarrow> chrome_item list \<Rightarrow> error + jar" where
  "Chrome_items w self cj [] = Inr cj"
| "Chrome_items w self cj (item # items) =
     (case Chrome_item_step w self cj item of
        Inr cj' \<Rightarrow> Chrome_items w self cj' items
      | Inl e \<Rightarrow>
          if e = OverflowError \<or> e = OSError then Chrome_items w self cj items
          else Inl e)"

definition Chrome_load :: "world \<Rightarrow> Chrome \<Rightarrow> error + jar" where
  "Chrome_load w self =
     (case snd (Chrome_query w (sqlite3_connect w (chrome_tmp_cookie_file self))
                  (chrome_domain_name self)) of
        Inl e \<Rightarrow> Inl e
      | Inr rows \<Rightarrow> Chrome_items w self Map.empty rows)"

definition chrome :: "world \<Rightarrow> string option \<Rightarrow> string \<Rightarrow> error + jar" where
  "chrome w cookie_file domain_name =
     (case Chrome_init w cookie_file domain_name of
        Inl e \<Rightarrow> Inl e
      | Inr self \<Rightarrow> Chrome_load w self)"

section \<open>Firefox: locating the store\<close>

text \<open>
  \<open>template.format(path)\<close> for the templates of this module, whose only replacement
  field is \<open>{0}\<close>.
\<close>

function format0 :: "string \<Rightarrow> string \<Rightarrow> string" where
  "format0 template arg =
     (if template = [] then []
      else if take 3 template = ''{0}'' then arg @ format0 (drop 3 template) arg
      else hd template # format0 (tl template) arg)"
  by pat_completeness auto
termination
  by (relation "measure (\<lambda>(template, arg). length template)") (auto simp: neq_Nil_conv)

declare format0.simps [simp del]

definition ini_get :: "ini_section \<Rightarrow> string \<Rightarrow> error + string" where
  "ini_get section key =
     (case map_of (snd section) key of None \<Rightarrow> Inl KeyError | Some v \<Rightarrow> Inr v)"

text \<open>
  The loop of \<open>get_default_profile\<close> over the sections; a \<open>KeyError\<close> goes on to the
  next section. After the loop the source evaluates the name \<open>none\<close>, which nothing in
  the module defines.
\<close>

fun get_default_profile_sections :: "string \<Rightarrow> ini_section list \<Rightarrow> error + string" where
  "get_default_profile_sections template_for_relative [] = Inl NameError"
| "get_default_profile_sections template_for_relative (section # sections) =
     (case ini_get section ''default'' of
        Inl e \<Rightarrow> get_default_profile_sections template_for_relative sections
      | Inr dflt \<Rightarrow>
          if dflt = ''1'' then
            (case ini_get section ''isrelative'' of
               Inl e \<Rightarrow> get_default_profile_sections template_for_relative sections
             | Inr rel \<Rightarrow>
                 if rel = ''1'' then
                   (case ini_get section ''path'' of
                      Inl e \<Rightarrow> get_default_profile_sections template_for_relative sections
                    | Inr p \<Rightarrow> Inr (format0 template_for_relative p))
                 else get_default_profile_sections template_for_relative sections)
          else get_default_profile_sections template_for_relative sections)"

definition get_default_profile :: "world \<Rightarrow> string list \<Rightarrow> string \<Rightarrow> error + string" where
  "get_default_profile w profiles_ini_path template_for_relative =
     get_default_profile_sections template_for_relative (config_read w profiles_ini_path)"

definition list_or :: "'a list \<Rightarrow> 'a list \<Rightarrow> 'a list" where
  "list_or a b = (if a \<noteq> [] then a else b)"

definition first_cookie_file :: "string list \<Rightarrow> error + string" where
  "first_cookie_file cookie_files =
     (case cookie_files of [] \<Rightarrow> Inl BrowserCookieError | f # _ \<Rightarrow> Inr f)"

text \<open>
  \<open>find_cookie_file\<close>. On macOS the second statement reads the local variable
  \<open>profiles_ini_path\<close> in the arguments of the call that would assign it.
\<close>

definition find_cookie_file :: "world \<Rightarrow> error + string" where
  "find_cookie_file w =
     (case platform w of
        Darwin \<Rightarrow> Inl UnboundLocalError
      | Linux \<Rightarrow>
          (case get_default_profile w
                  (glob w (expanduser w ''~/.mozilla/firefox/profiles.ini''))
                  (expanduser w ''~/.mozilla/firefox/{0}/cookies.sqlite'') of
             Inl e \<Rightarrow> Inl e
           | Inr profiles_ini_path \<Rightarrow>
               first_cookie_file
                 (list_or (glob w (expanduser w ''~/.mozilla/firefox/*default*/cookies.sqlite''))
                          (glob w profiles_ini_path)))
      | Win32 \<Rightarrow>
          (case get_default_profile w
                  (list_or (glob w (path_join w (getenv_default w ''APPDATA'')
                                      ''Mozilla/Firefox/profiles.ini''))
                           (glob w (path_join w (getenv_default w ''LOCALAPPDATA'')
                                      ''Mozilla/Firefox/profiles.ini'')))
                  (path_join w (getenv_default w ''APPDATA'') ''Mozilla/Firefox/{0}/cookies.sqlite'') of
             Inl e \<Rightarrow> Inl e
           | Inr profiles_ini_path \<Rightarrow>
               first_cookie_file
                 (list_or (list_or (list_or (list_or
                    (glob w (path_join w (getenv_default w ''PROGRAMFILES'')
                               ''Mozilla Firefox/profile/cookies.sqlite''))
                    (glob w (path_join w (getenv_default w ''PROGRAMFILES(X86)'')
                               ''Mozilla Firefox/profile/cookies.sqlite'')))
                    (glob w (path_join w (getenv_default w ''APPDATA'')
                               ''Mozilla/Firefox/Profiles/*default*/cookies.sqlite'')))
                    (glob w (path_join w (getenv_default w ''LOCALAPPDATA'')
                               ''Mozilla/Firefox/Profiles/*default*/cookies.sqlite'')))
                    (glob w profiles_ini_path)))
      | OtherPlatform \<Rightarrow> Inl BrowserCookieError)"

record Firefox =
  firefox_tmp_cookie_file :: bytes
  firefox_session_file :: string
  firefox_session_file_lz4 :: string
  firefox_domain_name :: string

definition new_Firefox :: "world \<Rightarrow> string \<Rightarrow> string \<Rightarrow> bytes \<Rightarrow> Firefox" where
  "new_Firefox w cookie_file domain_name tmp =
     \<lparr>firefox_tmp_cookie_file = tmp,
      firefox_session_file = path_join w (dirname w cookie_file) ''sessionstore.js'',
      firefox_session_file_lz4 =
        path_join w (path_join w (dirname w cookie_file) ''sessionstore-backups'') ''recovery.jsonlz4'',
      firefox_domain_name = domain_name\<rparr>"

definition Firefox_init :: "world \<Rightarrow> string option \<Rightarrow> string \<Rightarrow> error + Firefox" where
  "Firefox_init w cookie_file domain_name =
     (case (case cookie_file of
              None \<Rightarrow> find_cookie_file w
            | Some f \<Rightarrow> if f \<noteq> [] then Inr f else find_cookie_file w) of
        Inl e \<Rightarrow> Inl e
      | Inr cf \<Rightarrow>
          (case create_local_copy w cf of
             Inl e \<Rightarrow> Inl e
           | Inr tmp \<Rightarrow> Inr (new_Firefox w cf domain_name tmp)))"

section \<open>Firefox: session recovery\<close>

text \<open>
  The state of \<open>Firefox.load\<close> while it runs: the jar, the number of readings of the
  clock so far, and the lines printed.
\<close>

record session_state =
  st_jar :: jar
  st_clock :: nat
  st_out :: "string list"

text \<open>\<open>d.get(key, default)\<close> and \<open>for x in v\<close> on Python values.\<close>

definition dict_get :: "pyval \<Rightarrow> string \<Rightarrow> pyval \<Rightarrow> error + pyval" where
  "dict_get d key dflt =
     (case d of
        PDict kvs \<Rightarrow> Inr (case map_of kvs key of None \<Rightarrow> dflt | Some v \<Rightarrow> v)
      | _ \<Rightarrow> Inl AttributeError)"

definition py_iter :: "pyval \<Rightarrow> error + pyval list" where
  "py_iter v =
     (case v of
        PList xs \<Rightarrow> Inr xs
      | PDict kvs \<Rightarrow> Inr (map (\<lambda>kv. PStr (fst kv)) kvs)
      | PStr s \<Rightarrow> Inr (map (\<lambda>c. PStr [c]) s)
      | PBytes b \<Rightarrow> Inr (map (\<lambda>x. PNum (uint x)) b)
      | _ \<Rightarrow> Inl TypeError)"

text \<open>
  \<open>__create_session_cookie\<close>, at the clock reading \<open>now = int(time.time())\<close>.
\<close>

definition create_session_cookie :: "world \<Rightarrow> int \<Rightarrow> pyval \<Rightarrow> error + Cookie" where
  "create_session_cookie w now cookie_json =
     (let expires = ExpiresStr (now + 3600 * 24 * 7) in
      case dict_get cookie_json ''host'' (PStr []) of
        Inl e \<Rightarrow> Inl e
      | Inr host \<Rightarrow>
          (case dict_get cookie_json ''path'' (PStr []) of
             Inl e \<Rightarrow> Inl e
           | Inr path \<Rightarrow>
               (case dict_get cookie_json ''name'' (PStr []) of
                  Inl e \<Rightarrow> Inl e
                | Inr name \<Rightarrow>
                    (case dict_get cookie_json ''value'' (PStr []) of
                       Inl e \<Rightarrow> Inl e
                     | Inr val \<Rightarrow> create_cookie w host path False expires name val))))"

fun session_cookies_loop :: "world \<Rightarrow> session_state \<Rightarrow> pyval list \<Rightarrow> error + session_state" where
  "session_cookies_loop w st [] = Inr st"
| "session_cookies_loop w st (cookie # cookies) =
     (case create_session_cookie w (time_time w (st_clock st)) cookie of
        Inl e \<Rightarrow> Inl e
      | Inr c \<Rightarrow>
          (case set_cookie (st_jar st) c of
             Inl e \<Rightarrow> Inl e
           | Inr cj \<Rightarrow>
               session_cookies_loop w (st\<lparr>st_jar := cj, st_clock := Suc (st_clock st)\<rparr>) cookies))"

definition session_cookies_of :: "world \<Rightarrow> session_state \<Rightarrow> pyval \<Rightarrow> error + session_state" where
  "session_cookies_of w st holder =
     (case dict_get holder ''cookies'' (PList []) of
        Inl e \<Rightarrow> Inl e
      | Inr cs \<Rightarrow>
          (case py_iter cs of
             Inl e \<Rightarrow> Inl e
           | Inr cookies \<Rightarrow> session_cookies_loop w st cookies))"

fun session_windows_loop :: "world \<Rightarrow> session_state \<Rightarrow> pyval list \<Rightarrow> error + session_state" where
  "session_windows_loop w st [] = Inr st"
| "session_windows_loop w st (window # windows) =
     (case session_cookies_of w st window of
        Inl e \<Rightarrow> Inl e
      | Inr st' \<Rightarrow> session_windows_loop w st' windows)"

definition print_line :: "session_state \<Rightarrow> string \<Rightarrow> session_state" where
  "print_line st line = st\<lparr>st_out := st_out st @ [line]\<rparr>"

text \<open>The bodies of the two \<open>try\<close> blocks.\<close>

definition read_session_file :: "world \<Rightarrow> bytes \<Rightarrow> error + pyval" where
  "read_session_file w content =
     (case decode_utf8 w content of
        None \<Rightarrow> Inl UnicodeDecodeError
      | Some text \<Rightarrow> json_loads w text)"

definition read_session_file_lz4 :: "world \<Rightarrow> bytes \<Rightarrow> error + pyval" where
  "read_session_file_lz4 w content =
     (case lz4_block_decompress w (drop 8 content) of
        Inl e \<Rightarrow> Inl e
      | Inr data \<Rightarrow> json_loads_bytes w data)"

definition Firefox_add_session_cookies :: "world \<Rightarrow> Firefox \<Rightarrow> session_state \<Rightarrow> error + session_state" where
  "Firefox_add_session_cookies w self st =
     (case files w (firefox_session_file self) of
        None \<Rightarrow> Inr st
      | Some content \<Rightarrow>
          (case read_session_file w content of
             Inl e \<Rightarrow>
               if is_ValueError e then Inr (print_line st ''Error parsing firefox session JSON:'')
               else Inl e
           | Inr json_data \<Rightarrow>
               (case dict_get json_data ''windows'' (PList []) of
                  Inl e \<Rightarrow> Inl e
                | Inr ws \<Rightarrow>
                    (case py_iter ws of
                       Inl e \<Rightarrow> Inl e
                     | Inr windows \<Rightarrow> session_windows_loop w st windows))))"

definition Firefox_add_session_cookies_lz4 :: "world \<Rightarrow> Firefox \<Rightarrow> session_state \<Rightarrow> error + session_state" where
  "Firefox_add_session_cookies_lz4 w self st =
     (case files w (firefox_session_file_lz4 self) of
        None \<Rightarrow> Inr st
      | Some content \<Rightarrow>
          (case read_session_file_lz4 w content of
             Inl e \<Rightarrow>
               if is_ValueError e then Inr (print_line st ''Error parsing firefox session JSON LZ4:'')
               else Inl e
           | Inr json_data \<Rightarrow> session_cookies_of w st json_data))"

section \<open>Firefox: reading the store\<close>

definition execute_moz_cookies :: "world \<Rightarrow> db \<Rightarrow> string \<Rightarrow> error + moz_item list" where
  "execute_moz_cookies w con domain_name =
     (case con of
        NotADatabase \<Rightarrow> Inl DatabaseError
      | Database cookies moz \<Rightarrow>
          (case sql_like w domain_name of
             Inl e \<Rightarrow> Inl e
           | Inr matches \<Rightarrow>
               (case moz of
                  None \<Rightarrow> Inl OperationalError
                | Some rows \<Rightarrow> Inr (filter (\<lambda>item. matches (moz_host item)) rows))))"

fun Firefox_items :: "world \<Rightarrow> jar \<Rightarrow> moz_item list \<Rightarrow> error + jar" where
  "Firefox_items w cj [] = Inr cj"
| "Firefox_items w cj (item # items) =
     (case create_cookie w (PStr (moz_host item)) (PStr (moz_path item)) (moz_isSecure item)
             (ExpiresInt (moz_expiry item)) (PStr (moz_name item)) (PStr (moz_value item)) of
        Inl e \<Rightarrow> Inl e
      | Inr c \<Rightarrow>
          (case set_cookie cj c of
             Inl e \<Rightarrow> Inl e
           | Inr cj' \<Rightarrow> Firefox_items w cj' items))"

definition Firefox_load :: "world \<Rightarrow> Firefox \<Rightarrow> error + session_state" where
  "Firefox_load w self =
     (case execute_moz_cookies w (sqlite3_connect w (firefox_tmp_cookie_file self))
             (firefox_domain_name self) of
        Inl e \<Rightarrow> Inl e
      | Inr rows \<Rightarrow>
          (case Firefox_items w Map.empty rows of
             Inl e \<Rightarrow> Inl e
           | Inr cj \<Rightarrow>
               (case Firefox_add_session_cookies w self
                       \<lparr>st_jar = cj, st_clock = 0, st_out = []\<rparr> of
                  Inl e \<Rightarrow> Inl e
                | Inr st \<Rightarrow> Firefox_add_session_cookies_lz4 w self st)))"

definition firefox :: "world \<Rightarrow> string option \<Rightarrow> string \<Rightarrow> error + session_state" where
  "firefox w cookie_file domain_name =
     (case Firefox_init w cookie_file domain_name of
        Inl e \<Rightarrow> Inl e
      | Inr self \<Rightarrow> Firefox_load w self)"

section \<open>All browsers\<close>

text \<open>
  \<open>load\<close>: the jar of each browser in turn is copied into one jar; only
  \<open>BrowserCookieError\<close> is caught. The result carries the lines printed on the way.
\<close>

type_synonym cookie_fn = "world \<Rightarrow> string \<Rightarrow> error + jar \<times> string list"

definition chrome_fn :: cookie_fn where
  "chrome_fn w domain_name =
     (case chrome w None domain_name of Inl e \<Rightarrow> Inl e | Inr cj \<Rightarrow> Inr (cj, []))"

definition firefox_fn :: cookie_fn where
  "firefox_fn w domain_name =
     (case firefox w None domain_name of
        Inl e \<Rightarrow> Inl e
      | Inr st \<Rightarrow> Inr (st_jar st, st_out st))"

fun load_loop :: "world \<Rightarrow> string \<Rightarrow> jar \<times> string list \<Rightarrow> cookie_fn list \<Rightarrow> error + jar \<times> string list" where
  "load_loop w domain_name acc [] = Inr acc"
| "load_loop w domain_name acc (cookie_fn # fns) =
     (case cookie_fn w domain_name of
        Inr (cj', out') \<Rightarrow> load_loop w domain_name (fst acc ++ cj', snd acc @ out') fns
      | Inl e \<Rightarrow>
          if e = BrowserCookieError then load_loop w domain_name acc fns
          else Inl e)"

definition load :: "world \<Rightarrow> string \<Rightarrow> error + jar \<times> string list" where
  "load w domain_name = load_loop w domain_name (Map.empty, []) [chrome_fn, firefox_fn]"

section \<open>A concrete machine\<close>

text \<open>
  A Linux machine whose local time is UTC, with an empty file system, used to run the
  definitions on concrete inputs. Its codecs read and write ASCII, its floats are exact,
  its \<open>like\<close> is containment, and its parsers accept nothing.
\<close>

definition ascii_encode :: "string \<Rightarrow> bytes" where
  "ascii_encode s = map (\<lambda>c. of_nat (of_char c)) s"

definition ascii_decode :: "bytes \<Rightarrow> string option" where
  "ascii_decode b = (if list_all (\<lambda>x. unat x < 128) b then Some (map (\<lambda>x. char_of (unat x)) b) else None)"

definition ascii_lower :: "string \<Rightarrow> string" where
  "ascii_lower s =
     map (\<lambda>c. if 65 \<le> (of_char c :: nat) \<and> (of_char c :: nat) \<le> 90
              then char_of ((of_char c :: nat) + 32) else c) s"

definition contains :: "string \<Rightarrow> string \<Rightarrow> bool" where
  "contains d host = list_ex (\<lambda>i. take (length d) (drop i host) = d) [0..<Suc (length host)]"

definition posix_dirname :: "string \<Rightarrow> string" where
  "posix_dirname p = rev (drop 1 (dropWhile (\<lambda>c. c \<noteq> CHR ''/'') (rev p)))"

definition home_expanduser :: "string \<Rightarrow> string" where
  "home_expanduser p = (if take 1 p = ''~'' then ''/home/user'' @ drop 1 p else p)"

definition linux_world :: world where
  "linux_world =
     \<lparr>platform = Linux,
      getenv = (\<lambda>n. None),
      expanduser = home_expanduser,
      expandvars = (\<lambda>p. p),
      path_join = (\<lambda>a b. a @ ''/'' @ b),
      dirname = posix_dirname,
      glob = (\<lambda>pattern. []),
      files = Map.empty,
      policy_UserDataDir = None,
      keyring_get_password = None,
      encode_utf8 = ascii_encode,
      decode_utf8 = ascii_decode,
      str_lower = ascii_lower,
      PBKDF2 = (\<lambda>password salt iterations n. replicate n 0),
      AES_decrypt = (\<lambda>k block. block),
      CryptUnprotectData = (\<lambda>blob. None),
      sqlite3_connect = (\<lambda>content. NotADatabase),
      sql_like = (\<lambda>d. Inr (contains d)),
      localtime = (\<lambda>t. Inr t),
      double = (\<lambda>x. x),
      time_time = (\<lambda>n. 1700000000 + int n),
      config_read = (\<lambda>paths. []),
      json_loads = (\<lambda>text. Inl JSONDecodeError),
      json_loads_bytes = (\<lambda>data. Inl JSONDecodeError),
      lz4_block_decompress = (\<lambda>data. Inl ValueError)\<rparr>"

definition linux_chrome :: Chrome where
  "linux_chrome = new_Chrome [] (Some (replicate 16 0)) []"

section \<open>Hypotheses on the machine and sample data\<close>

text \<open>
  Python floats are IEEE doubles: every integer up to \<open>2 ^ 53\<close> in magnitude is a
  float, and rounding to the nearest float is monotone.
\<close>

definition double_exact :: "world \<Rightarrow> bool" where
  "double_exact w = (\<forall>n. \<bar>n\<bar> \<le> 2 ^ 53 \<longrightarrow> double w (of_int n) = of_int n)"

definition double_mono :: "world \<Rightarrow> bool" where
  "double_mono w = (\<forall>x y. x \<le> y \<longrightarrow> double w x \<le> double w y)"

text \<open>
  More generally, a number \<open>k / 2 ^ n\<close> with \<open>k\<close> up to \<open>2 ^ 53\<close> in magnitude is a
  float (for \<open>n\<close> up to 1021, within the normal range).
\<close>

definition double_exact_dyadic :: "world \<Rightarrow> bool" where
  "double_exact_dyadic w =
     (\<forall>k n. \<bar>k\<bar> \<le> 2 ^ 53 \<and> n \<le> 1021 \<longrightarrow> double w (of_int k / 2 ^ n) = of_int k / 2 ^ n)"

text \<open>
  Rounding is to a nearest float: no float \<open>k / 2 ^ n\<close> is nearer to \<open>x\<close> than the float
  of \<open>x\<close>.
\<close>

definition double_nearest :: "world \<Rightarrow> bool" where
  "double_nearest w =
     (\<forall>x k n. \<bar>k\<bar> \<le> 2 ^ 53 \<and> n \<le> 1021 \<longrightarrow> \<bar>double w x - x\<bar> \<le> \<bar>of_int k / 2 ^ n - x\<bar>)"

text \<open>
  The rounding of IEEE 754 itself, for numbers in the normal range: the number is scaled
  by powers of two until it lies between \<open>2 ^ 52\<close> and \<open>2 ^ 53\<close>, rounded to the
  nearest integer, ties to even, and scaled back. The scaling takes fewer steps than its
  fuel for every number a double can hold.
\<close>

definition round_half_even :: "real \<Rightarrow> int" where
  "round_half_even x =
     (if x - of_int \<lfloor>x\<rfloor> < 1 / 2 then \<lfloor>x\<rfloor>
      else if 1 / 2 < x - of_int \<lfloor>x\<rfloor> then \<lfloor>x\<rfloor> + 1
      else if even \<lfloor>x\<rfloor> then \<lfloor>x\<rfloor> else \<lfloor>x\<rfloor> + 1)"

function scale_to_53_bits :: "nat \<Rightarrow> real \<Rightarrow> int \<Rightarrow> real \<times> int" where
  "scale_to_53_bits fuel x e =
     (if fuel = 0 then (x, e)
      else if x < 2 ^ 52 then scale_to_53_bits (fuel - 1) (x * 2) (e - 1)
      else if 2 ^ 53 \<le> x then scale_to_53_bits (fuel - 1) (x / 2) (e + 1)
      else (x, e))"
  by pat_completeness auto
termination
  by (relation "measure (\<lambda>(fuel, x, e). fuel)") auto

declare scale_to_53_bits.simps [simp del]

definition round_double :: "real \<Rightarrow> real" where
  "round_double x =
     (if x = 0 then 0
      else case scale_to_53_bits 2200 \<bar>x\<bar> 0 of
        (m, e) \<Rightarrow>
          sgn x * (if 0 \<le> e then of_int (round_half_even m) * 2 ^ nat e
                   else of_int (round_half_even m) / 2 ^ nat (- e)))"

text \<open>
  A machine on UTC whose \<open>localtime\<close> fails on times before 1970, as it does on Windows.
\<close>

definition no_negative_time_world :: world where
  "no_negative_time_world =
     linux_world\<lparr>localtime := (\<lambda>t. if t < 0 then Inl TmOSError else Inr t)\<rparr>"

definition ieee_world :: world where
  "ieee_world = linux_world\<lparr>double := round_double\<rparr>"

definition session_entry :: pyval where
  "session_entry = PDict [(''host'', PStr ''.example.com''), (''path'', PStr ''/''),
     (''name'', PStr ''sid''), (''value'', PStr ''42''), (''expiry'', PNum 1)]"

definition profiles_without_default :: "ini_section list" where
  "profiles_without_default =
     [(''General'', [(''startwithlastprofile'', ''1'')]),
      (''Profile0'', [(''name'', ''default''), (''isrelative'', ''1''), (''path'', ''abc.default'')])]"

text \<open>
  The machine's local time is UTC when \<open>localtime\<close> changes nothing.
\<close>

definition utc_local :: "world \<Rightarrow> bool" where
  "utc_local w = (\<forall>t. localtime w t = Inr t)"

text \<open>
  Sample rows and stores: a row expiring at 13000000000000000 microseconds after
  1601-01-01 (2012-12-14 23:06:40 UTC, 1355526400 seconds after 1970-01-01), the same
  row with a zero timestamp, stores exposing one name of the flag column only, and a
  machine one hour ahead of UTC.
\<close>

definition sample_item :: chrome_item where
  "sample_item = \<lparr>host_key = ''.example.com'', item_path = ''/'', item_secure = True,
     expires_utc = 13000000000000000, item_name = ''sid'', item_value = ''42'',
     encrypted_value = []\<rparr>"

definition newer_only_db :: db where
  "newer_only_db = Database (Some \<lparr>has_secure = False, has_is_secure = True,
     cookies_rows = [sample_item]\<rparr>) None"

definition legacy_only_db :: db where
  "legacy_only_db = Database (Some \<lparr>has_secure = True, has_is_secure = False,
     cookies_rows = [sample_item]\<rparr>) None"

definition zero_item :: chrome_item where
  "zero_item = sample_item\<lparr>expires_utc := 0\<rparr>"

text \<open>
  Rows expiring half a second after 1969-12-31 23:59:55, one microsecond before the
  second \<open>2 ^ 34 + 1\<close> of the epoch (in the year 2514), one microsecond before
  9999-12-30 00:00:00, at the last second of the year 9999, and at noon of 0001-01-01.
\<close>

definition before_1970_item :: chrome_item where
  "before_1970_item = sample_item\<lparr>expires_utc := 11644473595500000\<rparr>"

definition year_2514_item :: chrome_item where
  "year_2514_item = sample_item\<lparr>expires_utc := 28824342784999999\<rparr>"

definition far_future_item :: chrome_item where
  "far_future_item = sample_item\<lparr>expires_utc := 265046687999999999\<rparr>"

definition year_9999_item :: chrome_item where
  "year_9999_item = sample_item\<lparr>expires_utc := 265046774399000000\<rparr>"

definition year_1_item :: chrome_item where
  "year_1_item = sample_item\<lparr>expires_utc := - 50491080000000000\<rparr>"

definition paris_world :: world where
  "paris_world = linux_world\<lparr>localtime := (\<lambda>t. Inr (t + 3600))\<rparr>"

text \<open>
  A row's timestamp is invalid when its conversion raises; it overflows when the
  conversion raises \<open>OverflowError\<close> or \<open>OSError\<close>. A row is valid when it yields a
  cookie; \<open>valid_cookies\<close> are the cookies of the valid rows of a batch, in order, and
  \<open>jar_of\<close> stores them in a jar one after the other.
\<close>

definition timestamp_invalid :: "world \<Rightarrow> chrome_item \<Rightarrow> bool" where
  "timestamp_invalid w item = (case Chrome_expires w (expires_utc item) of Inl e \<Rightarrow> True | Inr x \<Rightarrow> False)"

definition timestamp_overflows :: "world \<Rightarrow> chrome_item \<Rightarrow> bool" where
  "timestamp_overflows w item =
     (Chrome_expires w (expires_utc item) = Inl OverflowError
      \<or> Chrome_expires w (expires_utc item) = Inl OSError)"

definition row_valid :: "world \<Rightarrow> Chrome \<Rightarrow> chrome_item \<Rightarrow> bool" where
  "row_valid w self item = (case Chrome_item_cookie w self item of Inl e \<Rightarrow> False | Inr c \<Rightarrow> True)"

definition valid_cookies :: "world \<Rightarrow> Chrome \<Rightarrow> chrome_item list \<Rightarrow> Cookie list" where
  "valid_cookies w self items =
     concat (map (\<lambda>item. case Chrome_item_cookie w self item of Inl e \<Rightarrow> [] | Inr c \<Rightarrow> [c]) items)"

definition jar_of :: "jar \<Rightarrow> Cookie list \<Rightarrow> jar" where
  "jar_of cj cs = foldl (\<lambda>j c. j(cookie_key c \<mapsto> c)) cj cs"

text \<open>
  A row whose timestamp is the largest 64-bit integer, which lies after the year 9999,
  and one more valid row.
\<close>

definition overflow_item :: chrome_item where
  "overflow_item = \<lparr>host_key = ''.example.org'', item_path = ''/'', item_secure = False,
     expires_utc = 9223372036854775807, item_name = ''forever'', item_value = ''1'',
     encrypted_value = []\<rparr>"

definition other_item :: chrome_item where
  "other_item = \<lparr>host_key = ''www.example.net'', item_path = ''/a'', item_secure = False,
     expires_utc = 13000000000500000, item_name = ''lang'', item_value = ''en'',
     encrypted_value = []\<rparr>"


text \<open>
  A Firefox profile with one stored cookie, on a machine where \<open>sessionstore.js\<close>
  holds the single character \<open>{\<close> and there is no compressed log, and on a machine
  where there is no \<open>sessionstore.js\<close> and the compressed log holds the 8-byte header
  and one more byte.
\<close>

definition moz_sample :: moz_item where
  "moz_sample = \<lparr>moz_host = ''.example.com'', moz_path = ''/'', moz_isSecure = True,
     moz_expiry = 1800000000, moz_name = ''sid'', moz_value = ''42''\<rparr>"






text \<open>
  A browser's failure is absorbed by \<open>load\<close> when it is a \<open>BrowserCookieError\<close>.
\<close>

definition absorbed :: "error + 'a \<Rightarrow> bool" where
  "absorbed r = (case r of Inl e \<Rightarrow> e = BrowserCookieError | Inr x \<Rightarrow> True)"

definition jar_or_empty :: "error + jar \<Rightarrow> jar" where
  "jar_or_empty r = (case r of Inl e \<Rightarrow> Map.empty | Inr cj \<Rightarrow> cj)"

text \<open>
  A Linux machine where Chrome's store is an empty file (an SQLite database with no
  table), and one where only Firefox is installed, with a default profile.
\<close>

definition empty_store_world :: world where
  "empty_store_world = linux_world
     \<lparr>files := [''/home/user/.config/google-chrome/Default/Cookies'' \<mapsto> []],
      sqlite3_connect := (\<lambda>content. Database None None)\<rparr>"

definition firefox_only_world :: world where
  "firefox_only_world = linux_world
     \<lparr>glob := (\<lambda>pattern.
         if pattern = ''/home/user/.mozilla/firefox/*default*/cookies.sqlite''
         then [''/home/user/.mozilla/firefox/abc.default/cookies.sqlite''] else []),
      files := [''/home/user/.mozilla/firefox/abc.default/cookies.sqlite'' \<mapsto> []],
      sqlite3_connect := (\<lambda>content. Database None (Some [moz_sample])),
      config_read := (\<lambda>paths.
         [(''Profile0'', [(''name'', ''default''), (''isrelative'', ''1''),
                          (''path'', ''abc.default''), (''default'', ''1'')])])\<rparr>"

section \<open>Properties of the streaming decrypter\<close>

lemma feed_loop_append:
  "feed_loop D a lst r = Inr (out, st) \<Longrightarrow>
   feed_loop D (buffer st @ b) (last_cipherblock st) out = feed_loop D (a @ b) lst r"
proof (induction D a lst r rule: feed_loop.induct)
  case (1 D buf lst result)
  show ?case
  proof (cases "length buf \<ge> 32")
    case True
    then have cc: "block_can_consume (length buf - 16) = 16"
      and cc': "block_can_consume (length (buf @ b) - 16) = 16"
      by (simp_all add: block_can_consume_def)
    from True have len: "length (take 16 buf) = 16" by simp
    obtain plain where dec: "CBC_decrypt D lst (take 16 buf) = Inr (plain, take 16 buf)"
      using len by (simp add: CBC_decrypt_def)
    from True have tk: "take 16 (buf @ b) = take 16 buf" and dr: "drop 16 (buf @ b) = drop 16 buf @ b"
      by simp_all
    have step: "feed_loop D buf lst result = feed_loop D (drop 16 buf) (take 16 buf) (result @ plain)"
      using True cc dec by (subst feed_loop.simps) simp
    have step': "feed_loop D (buf @ b) lst result
                 = feed_loop D (drop 16 buf @ b) (take 16 buf) (result @ plain)"
      using True cc' dec tk dr by (subst feed_loop.simps) simp
    have "feed_loop D (drop 16 buf) (take 16 buf) (result @ plain) = Inr (out, st)"
      using "1.prems" step by simp
    then have "feed_loop D (buffer st @ b) (last_cipherblock st) out
               = feed_loop D (drop 16 buf @ b) (take 16 buf) (result @ plain)"
      using "1.IH" True cc dec by simp
    then show ?thesis using step' by simp
  next
    case False
    then have "feed_loop D buf lst result = Inr (result, \<lparr>buffer = buf, last_cipherblock = lst\<rparr>)"
      by (subst feed_loop.simps) (auto simp: block_can_consume_def)
    with "1.prems" show ?thesis by auto
  qed
qed

lemma feed_loop_result_prefix:
  "feed_loop D a lst (r @ r') = map_sum id (\<lambda>(out, st). (r @ out, st)) (feed_loop D a lst r')"
proof (induction D a lst r' rule: feed_loop.induct)
  case (1 D buf lst result)
  show ?case
  proof (cases "length buf \<ge> 32")
    case True
    then have cc: "block_can_consume (length buf - 16) = 16"
      by (simp add: block_can_consume_def)
    obtain plain where dec: "CBC_decrypt D lst (take 16 buf) = Inr (plain, take 16 buf)"
      using True by (simp add: CBC_decrypt_def)
    have "feed_loop D buf lst (r @ result)
          = feed_loop D (drop 16 buf) (take 16 buf) (r @ result @ plain)"
      using True cc dec by (subst feed_loop.simps) simp
    moreover have "feed_loop D buf lst result
          = feed_loop D (drop 16 buf) (take 16 buf) (result @ plain)"
      using True cc dec by (subst feed_loop.simps) simp
    ultimately show ?thesis
      using "1.IH" True cc dec by simp
  next
    case False
    then show ?thesis
      by (subst (1 2) feed_loop.simps) (auto simp: block_can_consume_def)
  qed
qed

lemma feed_loop_total: "\<exists>out st. feed_loop D a lst r = Inr (out, st)"
proof (induction D a lst r rule: feed_loop.induct)
  case (1 D buf lst result)
  show ?case
  proof (cases "length buf \<ge> 32")
    case True
    then have cc: "block_can_consume (length buf - 16) = 16"
      by (simp add: block_can_consume_def)
    obtain plain where dec: "CBC_decrypt D lst (take 16 buf) = Inr (plain, take 16 buf)"
      using True by (simp add: CBC_decrypt_def)
    have "feed_loop D buf lst result
          = feed_loop D (drop 16 buf) (take 16 buf) (result @ plain)"
      using True cc dec by (subst feed_loop.simps) simp
    then show ?thesis
      using "1.IH" True cc dec by simp
  next
    case False
    then show ?thesis
      by (subst feed_loop.simps) (auto simp: block_can_consume_def)
  qed
qed

lemma feed_twice:
  assumes "feed D st0 a = Inr (d1, st1)"
  shows "feed D st1 b = Inr (d2, st2) \<longleftrightarrow> feed D st0 (a @ b) = Inr (d1 @ d2, st2)"
proof -
  from assms have "feed_loop D (buffer st1 @ b) (last_cipherblock st1) d1
                   = feed_loop D ((buffer st0 @ a) @ b) (last_cipherblock st0) []"
    unfolding feed_def by (rule feed_loop_append)
  moreover have "feed_loop D (buffer st1 @ b) (last_cipherblock st1) (d1 @ [])
                 = map_sum id (\<lambda>(out, st). (d1 @ out, st))
                     (feed_loop D (buffer st1 @ b) (last_cipherblock st1) [])"
    by (rule feed_loop_result_prefix)
  ultimately have eq: "feed D st0 (a @ b)
                   = map_sum id (\<lambda>(out, st). (d1 @ out, st)) (feed D st1 b)"
    by (simp add: feed_def)
  obtain o2 s2 where o2: "feed D st1 b = Inr (o2, s2)"
    unfolding feed_def using feed_loop_total by blast
  show ?thesis using eq o2 by auto
qed

text \<open>
  C6. For every ciphertext left after the marker is stripped, every block function and
  every IV, feeding the two halves one after the other and then finishing gives the same
  result (the same plaintext, or the same error) as feeding the whole ciphertext in a
  single call and then finishing.
\<close>

theorem two_feeds_equal_single_call:
  "decrypt_two_feeds D iv ciphertext = decrypt_single_call D iv ciphertext"
proof -
  let ?h = "length ciphertext div 2"
  obtain d1 st1 where f1: "feed D (new_Decrypter iv) (take ?h ciphertext) = Inr (d1, st1)"
    unfolding feed_def using feed_loop_total by blast
  obtain d2 st2 where f2: "feed D st1 (drop ?h ciphertext) = Inr (d2, st2)"
    unfolding feed_def using feed_loop_total by blast
  have "feed D (new_Decrypter iv) (take ?h ciphertext @ drop ?h ciphertext)
        = Inr (d1 @ d2, st2)"
    using feed_twice [OF f1] f2 by blast
  then have whole: "feed D (new_Decrypter iv) ciphertext = Inr (d1 @ d2, st2)"
    by simp
  show ?thesis
    unfolding decrypt_two_feeds_def decrypt_single_call_def Let_def
    by (simp add: f1 f2 whole split: sum.splits)
qed

section \<open>Properties of decryption\<close>

text \<open>
  C5. On both strategies (the derived key and the blob sealed by Windows), a row whose
  plaintext column \<open>value\<close> is not empty decrypts to that column, whatever the column
  \<open>encrypted_value\<close> holds.
\<close>
theorem nonempty_value_passes_through:
  "val \<noteq> [] \<Longrightarrow> Chrome_decrypt w self val encrypted = Inr (PStr val)"
  by (simp add: Chrome_decrypt_def Chrome_decrypt_windows_chrome_def)

theorem nonempty_value_passes_through_witness:
  "''abc'' \<noteq> [] \<and> Chrome_decrypt linux_world linux_chrome ''abc'' (v10 @ [1, 2, 3]) = Inr (PStr ''abc'')
   \<and> Chrome_decrypt (linux_world\<lparr>platform := Win32\<rparr>) linux_chrome ''abc'' [1, 2, 3] = Inr (PStr ''abc'')"
  using nonempty_value_passes_through [of "''abc''" linux_world linux_chrome "v10 @ [1, 2, 3]"]
    nonempty_value_passes_through [of "''abc''" "linux_world\<lparr>platform := Win32\<rparr>" linux_chrome "[1, 2, 3]"]
  by simp

text \<open>
  C3, as the code has it. On the derived-key path (any platform but Windows), a row
  whose plaintext column is empty and whose \<open>encrypted_value\<close> does not begin with the
  marker \<open>v10\<close> decrypts to the plaintext column, that is to the empty string; the
  bytes of \<open>encrypted_value\<close> are not returned.
\<close>
theorem unmarked_value_returns_plaintext_column:
  "platform w \<noteq> Win32 \<Longrightarrow> val = [] \<Longrightarrow> take 3 encrypted \<noteq> v10 \<Longrightarrow>
   Chrome_decrypt w self val encrypted = Inr (PStr [])"
  by (simp add: Chrome_decrypt_def)

text \<open>
  The row with an empty \<open>value\<close> and the unmarked \<open>encrypted_value\<close> \<open>b'abc'\<close>: the
  result is not \<open>encrypted_value\<close>.
\<close>

theorem unmarked_value_counterexample:
  "platform linux_world \<noteq> Win32 \<and> take 3 [0x61, 0x62, 0x63] \<noteq> v10 \<and>
   Chrome_decrypt linux_world linux_chrome [] [0x61, 0x62, 0x63] \<noteq> Inr (PBytes [0x61, 0x62, 0x63])"
  by (simp add: Chrome_decrypt_def linux_world_def v10_def)

theorem unmarked_value_returns_plaintext_column_witness:
  "platform linux_world \<noteq> Win32 \<and> take 3 [0x61, 0x62, 0x63] \<noteq> v10 \<and>
   Chrome_decrypt linux_world linux_chrome [] [0x61, 0x62, 0x63] = Inr (PStr [])"
  using unmarked_value_returns_plaintext_column [of linux_world "[]" "[0x61, 0x62, 0x63]" linux_chrome]
  by (simp add: linux_world_def v10_def)

lemma py_int_of_int [simp]: "py_int (of_int n) = n"
  by (simp add: py_int_def)

lemma create_cookie_fields:
  "create_cookie w host path secure expires name val = Inr c \<Longrightarrow>
   cookie_secure c = secure \<and> cookie_expires c = Some (int_float w expires)
   \<and> cookie_name c = name \<and> cookie_value c = val \<and> cookie_path c = path"
  by (auto simp: create_cookie_def split: sum.splits)

section \<open>Properties of session cookies\<close>

text \<open>
  C9. A cookie created from a session-recovery entry at the clock reading \<open>now\<close> is
  not secure and expires at \<open>now + 604800\<close>, whatever the entry holds (an expiry of its
  own included); and an entry that is an object with a string \<open>host\<close> does give a cookie.
\<close>

theorem session_cookie_fixed_expiry:
  assumes "double_exact w" and "\<bar>now + 604800\<bar> \<le> 2 ^ 53"
  shows "(\<forall>c. create_session_cookie w now cookie_json = Inr c \<longrightarrow>
            cookie_secure c = False \<and> cookie_expires c = Some (now + 604800))
       \<and> (\<forall>kvs h. cookie_json = PDict kvs \<and> map_of kvs ''host'' = Some (PStr h) \<longrightarrow>
            (\<exists>c. create_session_cookie w now cookie_json = Inr c))"
proof -
  have "double w (of_int (now + 604800)) = of_int (now + 604800)"
    using assms unfolding double_exact_def by blast
  then have fl: "int_float w (ExpiresStr (now + 604800)) = now + 604800"
    by (simp add: int_float_def del: of_int_add)
  have a: "cookie_secure c = False \<and> cookie_expires c = Some (now + 604800)"
    if "create_session_cookie w now cookie_json = Inr c" for c
    using that fl
    by (auto simp: create_session_cookie_def dest!: create_cookie_fields split: sum.splits)
  have b: "\<exists>c. create_session_cookie w now cookie_json = Inr c"
    if "cookie_json = PDict kvs \<and> map_of kvs ''host'' = Some (PStr h)" for kvs h
    using that
    by (simp add: create_session_cookie_def dict_get_def create_cookie_def startswith_dot_def)
  show ?thesis using a b by blast
qed

theorem session_cookie_fixed_expiry_witness:
  "\<bar>(1700000000::int) + 604800\<bar> \<le> 2 ^ 53
   \<and> (\<exists>c. create_session_cookie linux_world 1700000000 session_entry = Inr c
          \<and> cookie_secure c = False \<and> cookie_expires c = Some 1700604800)"
proof -
  have d: "double_exact linux_world" by (simp add: double_exact_def linux_world_def)
  have b: "\<bar>(1700000000::int) + 604800\<bar> \<le> 2 ^ 53" by simp
  have e: "session_entry = PDict [(''host'', PStr ''.example.com''), (''path'', PStr ''/''),
     (''name'', PStr ''sid''), (''value'', PStr ''42''), (''expiry'', PNum 1)]
     \<and> map_of [(''host'', PStr ''.example.com''), (''path'', PStr ''/''),
     (''name'', PStr ''sid''), (''value'', PStr ''42''), (''expiry'', PNum 1)] ''host'' = Some (PStr ''.example.com'')"
    by (simp add: session_entry_def)
  from session_cookie_fixed_expiry [OF d b, of session_entry] e d b
  show ?thesis by fastforce
qed

section \<open>Properties of Firefox path resolution\<close>

text \<open>
  C10. When no section of profiles.ini has both \<open>Default=1\<close> and \<open>IsRelative=1\<close>,
  \<open>get_default_profile\<close> raises \<open>NameError\<close> instead of returning an absent value;
  and on macOS \<open>find_cookie_file\<close> raises \<open>UnboundLocalError\<close>, which is not a
  \<open>BrowserCookieError\<close>, so that \<open>firefox\<close> without an explicit path raises it too.
\<close>

theorem firefox_profile_name_errors:
  "((\<forall>section \<in> set (config_read w paths).
       \<not> (ini_get section ''default'' = Inr ''1'' \<and> ini_get section ''isrelative'' = Inr ''1''))
     \<longrightarrow> get_default_profile w paths template = Inl NameError)
   \<and> (platform w = Darwin \<longrightarrow>
        find_cookie_file w = Inl UnboundLocalError \<and> UnboundLocalError \<noteq> BrowserCookieError
        \<and> firefox w None domain_name = Inl UnboundLocalError)"
proof -
  have loop: "(\<forall>section \<in> set sections.
       \<not> (ini_get section ''default'' = Inr ''1'' \<and> ini_get section ''isrelative'' = Inr ''1''))
     \<Longrightarrow> get_default_profile_sections template sections = Inl NameError" for sections
    by (induction sections) (auto split: sum.splits)
  show ?thesis
    using loop by (simp add: get_default_profile_def find_cookie_file_def firefox_def Firefox_init_def)
qed

theorem firefox_profile_name_errors_witness:
  "get_default_profile (linux_world\<lparr>config_read := (\<lambda>paths. profiles_without_default)\<rparr>) [] ''{0}'' = Inl NameError
   \<and> platform (linux_world\<lparr>platform := Darwin\<rparr>) = Darwin
   \<and> find_cookie_file (linux_world\<lparr>platform := Darwin\<rparr>) = Inl UnboundLocalError
   \<and> firefox (linux_world\<lparr>platform := Darwin\<rparr>) None [] = Inl UnboundLocalError"
proof -
  have h: "\<forall>section \<in> set (config_read (linux_world\<lparr>config_read := (\<lambda>paths. profiles_without_default)\<rparr>) []).
       \<not> (ini_get section ''default'' = Inr ''1'' \<and> ini_get section ''isrelative'' = Inr ''1'')"
    by (simp add: profiles_without_default_def ini_get_def)
  have p: "platform (linux_world\<lparr>platform := Darwin\<rparr>) = Darwin" by simp
  show ?thesis
    using h p
      firefox_profile_name_errors [of "linux_world\<lparr>config_read := (\<lambda>paths. profiles_without_default)\<rparr>" "[]" "''{0}''" "[]"]
      firefox_profile_name_errors [of "linux_world\<lparr>platform := Darwin\<rparr>" "[]" "[]" "[]"]
    by simp
qed

section \<open>Properties of the store reader\<close>

text \<open>
  C2, as the code has it. The reader first issues the query with the legacy column name
  \<open>secure\<close>; it issues the query with the newer name \<open>is_secure\<close> exactly when the
  first one raised \<open>OperationalError\<close>; and a store that exposes at least one of the
  two names yields all of its rows that match the domain filter.
\<close>

theorem legacy_query_first:
  "hd (fst (Chrome_query w con domain_name)) = Legacy
   \<and> (Newer \<in> set (fst (Chrome_query w con domain_name))
        \<longleftrightarrow> execute_cookies w con Legacy domain_name = Inl OperationalError)
   \<and> (con = Database (Some t) moz \<and> sql_like w domain_name = Inr matches
        \<and> (has_secure t \<or> has_is_secure t)
        \<longrightarrow> snd (Chrome_query w con domain_name)
            = Inr (filter (\<lambda>item. matches (host_key item)) (cookies_rows t)))"
  by (auto simp: Chrome_query_def execute_cookies_def has_column_def split: sum.splits db.splits option.splits)

text \<open>
  On a store that exposes only \<open>is_secure\<close> the first query issued is the legacy one,
  and on a store that exposes only \<open>secure\<close> the newer query is never issued.
\<close>

theorem newer_query_first_counterexample:
  "fst (Chrome_query linux_world newer_only_db []) = [Legacy, Newer]
   \<and> fst (Chrome_query linux_world legacy_only_db []) = [Legacy]"
  by (simp add: Chrome_query_def execute_cookies_def has_column_def newer_only_db_def
        legacy_only_db_def linux_world_def)

theorem legacy_query_first_witness:
  "fst (Chrome_query linux_world newer_only_db []) = [Legacy, Newer]
   \<and> execute_cookies linux_world newer_only_db Legacy [] = Inl OperationalError
   \<and> snd (Chrome_query linux_world newer_only_db []) = Inr [sample_item]
   \<and> snd (Chrome_query linux_world legacy_only_db []) = Inr [sample_item]"
proof -
  have m: "sql_like linux_world [] = Inr (contains [])" by (simp add: linux_world_def)
  have c: "contains [] (host_key sample_item)" by (simp add: contains_def sample_item_def)
  have n: "newer_only_db = Database (Some \<lparr>has_secure = False, has_is_secure = True,
     cookies_rows = [sample_item]\<rparr>) None" by (simp add: newer_only_db_def)
  have l: "legacy_only_db = Database (Some \<lparr>has_secure = True, has_is_secure = False,
     cookies_rows = [sample_item]\<rparr>) None" by (simp add: legacy_only_db_def)
  have e: "execute_cookies linux_world newer_only_db Legacy [] = Inl OperationalError"
    by (simp add: execute_cookies_def n m has_column_def)
  have t: "fst (Chrome_query linux_world newer_only_db []) = [Legacy, Newer]"
    by (simp add: Chrome_query_def e)
  from legacy_query_first [of linux_world newer_only_db "[]" "\<lparr>has_secure = False, has_is_secure = True,
     cookies_rows = [sample_item]\<rparr>" None "contains []"]
    legacy_query_first [of linux_world legacy_only_db "[]" "\<lparr>has_secure = True, has_is_secure = False,
     cookies_rows = [sample_item]\<rparr>" None "contains []"]
  show ?thesis using m c n l e t by simp
qed

section \<open>Properties of the all-browsers entry point\<close>

text \<open>
  C1, as the code has it. \<open>load\<close> absorbs the \<open>BrowserCookieError\<close> of a browser (its
  store is not found, or the platform is not supported): when each browser returns a jar
  or raises \<open>BrowserCookieError\<close>, \<open>load\<close> returns the jars of the browsers that
  succeeded, merged. An error of any other class raised inside a browser's pipeline is
  raised by \<open>load\<close>.
\<close>

theorem load_absorbs_BrowserCookieError:
  "(absorbed (chrome w None d) \<and> absorbed (firefox w None d) \<longrightarrow>
      (\<exists>out. load w d = Inr (jar_or_empty (chrome w None d)
                               ++ jar_or_empty (map_sum id st_jar (firefox w None d)), out)))
   \<and> (\<forall>e. chrome w None d = Inl e \<and> e \<noteq> BrowserCookieError \<longrightarrow> load w d = Inl e)
   \<and> (\<forall>e. absorbed (chrome w None d) \<and> firefox w None d = Inl e \<and> e \<noteq> BrowserCookieError
          \<longrightarrow> load w d = Inl e)"
  by (cases "chrome w None d"; cases "firefox w None d")
     (auto simp: load_def chrome_fn_def firefox_fn_def absorbed_def jar_or_empty_def)

text \<open>
  With an empty file as Chrome's store, both queries raise \<open>OperationalError\<close> and so
  does \<open>load\<close>.
\<close>

theorem load_raises_counterexample:
  "load empty_store_world [] = Inl OperationalError"
  by (simp add: load_def chrome_fn_def chrome_def Chrome_init_def chrome_pick_file_def
        create_local_copy_def str_or_def home_expanduser_def new_Chrome_def Chrome_load_def
        Chrome_query_def execute_cookies_def empty_store_world_def linux_world_def Let_def)

lemma chrome_linux_store_absent:
  "chrome linux_world None [] = Inl BrowserCookieError"
  "chrome firefox_only_world None [] = Inl BrowserCookieError"
  by (simp_all add: chrome_def Chrome_init_def chrome_pick_file_def create_local_copy_def
        str_or_def home_expanduser_def firefox_only_world_def linux_world_def Let_def)

lemma firefox_linux_no_profile:
  "firefox linux_world None [] = Inl NameError"
  by (simp add: firefox_def Firefox_init_def find_cookie_file_def get_default_profile_def
        linux_world_def)

lemma find_cookie_file_firefox_only:
  "find_cookie_file firefox_only_world
     = Inr ''/home/user/.mozilla/firefox/abc.default/cookies.sqlite''"
  by (simp add: find_cookie_file_def get_default_profile_def ini_get_def list_or_def
        first_cookie_file_def home_expanduser_def firefox_only_world_def linux_world_def)

lemma firefox_firefox_only:
  "\<exists>st. firefox firefox_only_world None [] = Inr st
       \<and> (''.example.com'', PStr ''/'', PStr ''sid'') \<in> dom (st_jar st)"
proof -
  let ?cf = "''/home/user/.mozilla/firefox/abc.default/cookies.sqlite''"
  let ?self = "new_Firefox firefox_only_world ?cf [] []"
  have init: "Firefox_init firefox_only_world None [] = Inr ?self"
    by (simp add: Firefox_init_def find_cookie_file_firefox_only create_local_copy_def)
       (simp add: firefox_only_world_def)
  have sf: "firefox_session_file ?self = ''/home/user/.mozilla/firefox/abc.default/sessionstore.js''"
    and sl: "firefox_session_file_lz4 ?self
       = ''/home/user/.mozilla/firefox/abc.default/sessionstore-backups/recovery.jsonlz4''"
    by (simp_all add: new_Firefox_def firefox_only_world_def linux_world_def posix_dirname_def)
  have p: "files firefox_only_world (firefox_session_file ?self) = None"
    unfolding sf by (simp add: firefox_only_world_def)
  have l: "files firefox_only_world (firefox_session_file_lz4 ?self) = None"
    unfolding sl by (simp add: firefox_only_world_def)
  have q: "execute_moz_cookies firefox_only_world
             (sqlite3_connect firefox_only_world (firefox_tmp_cookie_file ?self))
             (firefox_domain_name ?self) = Inr [moz_sample]"
    by (simp add: execute_moz_cookies_def firefox_only_world_def linux_world_def new_Firefox_def
          contains_def moz_sample_def)
  obtain cj where cj: "Firefox_items firefox_only_world Map.empty [moz_sample] = Inr cj"
    and k: "(''.example.com'', PStr ''/'', PStr ''sid'') \<in> dom cj"
    by (simp add: create_cookie_def startswith_dot_def set_cookie_def cookie_key_def moz_sample_def
          firefox_only_world_def linux_world_def ascii_lower_def)
  let ?st0 = "\<lparr>st_jar = cj, st_clock = 0, st_out = []\<rparr>"
  have s1: "Firefox_add_session_cookies firefox_only_world ?self ?st0 = Inr ?st0"
    by (simp add: Firefox_add_session_cookies_def p)
  have s2: "Firefox_add_session_cookies_lz4 firefox_only_world ?self ?st0 = Inr ?st0"
    by (simp add: Firefox_add_session_cookies_lz4_def l)
  have "Firefox_load firefox_only_world ?self = Inr ?st0"
    by (simp add: Firefox_load_def q cj s1 s2 del: Firefox_items.simps)
  then have "firefox firefox_only_world None [] = Inr ?st0"
    by (simp add: firefox_def init)
  then show ?thesis using k by force
qed

theorem load_absorbs_BrowserCookieError_witness:
  "chrome firefox_only_world None [] = Inl BrowserCookieError
   \<and> (\<exists>st out. firefox firefox_only_world None [] = Inr st
         \<and> (''.example.com'', PStr ''/'', PStr ''sid'') \<in> dom (st_jar st)
         \<and> load firefox_only_world [] = Inr (st_jar st, out))
   \<and> chrome empty_store_world None [] = Inl OperationalError
   \<and> load empty_store_world [] = Inl OperationalError
   \<and> chrome linux_world None [] = Inl BrowserCookieError
   \<and> firefox linux_world None [] = Inl NameError
   \<and> load linux_world [] = Inl NameError"
proof -
  obtain st where st: "firefox firefox_only_world None [] = Inr st"
    and k: "(''.example.com'', PStr ''/'', PStr ''sid'') \<in> dom (st_jar st)"
    using firefox_firefox_only by blast
  note c = chrome_linux_store_absent
  have a1: "absorbed (chrome firefox_only_world None [])"
    and a2: "absorbed (firefox firefox_only_world None [])"
    by (simp_all add: absorbed_def c st)
  from load_absorbs_BrowserCookieError [of firefox_only_world "[]"] a1 a2
  obtain out where "load firefox_only_world []
      = Inr (jar_or_empty (chrome firefox_only_world None [])
             ++ jar_or_empty (map_sum id st_jar (firefox firefox_only_world None [])), out)"
    by blast
  then have l1: "load firefox_only_world [] = Inr (st_jar st, out)"
    by (simp add: jar_or_empty_def c st)
  have e: "chrome empty_store_world None [] = Inl OperationalError"
    by (simp add: chrome_def Chrome_init_def chrome_pick_file_def
        create_local_copy_def str_or_def home_expanduser_def new_Chrome_def Chrome_load_def
        Chrome_query_def execute_cookies_def empty_store_world_def linux_world_def Let_def)
  from load_absorbs_BrowserCookieError [of empty_store_world "[]"] e
  have l2: "load empty_store_world [] = Inl OperationalError" by simp
  have a3: "absorbed (chrome linux_world None [])" by (simp add: absorbed_def c)
  from load_absorbs_BrowserCookieError [of linux_world "[]"] a3 firefox_linux_no_profile
  have l3: "load linux_world [] = Inl NameError" by simp
  show ?thesis using c st k l1 e l2 l3 firefox_linux_no_profile by blast
qed

section \<open>Properties of the timestamp conversion\<close>

lemma ymd2ord_1601: "ymd2ord 1601 1 1 = 584389"
  by (simp add: ymd2ord_def days_before_year_def days_before_month_def DAYS_BEFORE_MONTH_def Let_def)

lemma ymd2ord_1970: "ymd2ord 1970 1 1 = 719163"
  by (simp add: ymd2ord_def days_before_year_def days_before_month_def DAYS_BEFORE_MONTH_def Let_def)

lemma epoch_start_eq:
  "epoch_start = \<lparr>dt_ordinal = 584389, dt_second = 0, dt_microsecond = 0\<rparr>"
  by (simp only: epoch_start_def ymd2ord_1601)

lemma wall_clock_seconds_eq:
  "wall_clock_seconds dt = (dt_ordinal dt - 719163) * 86400 + dt_second dt"
  by (simp only: wall_clock_seconds_def ymd2ord_1970)

lemma year_in_range_eq:
  "year_in_range s = (1 \<le> 719163 + s div 86400 \<and> 719163 + s div 86400 \<le> 3652059)"
  by (simp only: year_in_range_def ymd2ord_1970 MAXORDINAL_def)

lemma py_int_between:
  assumes "of_int p \<le> v" and "v \<le> of_int p + 1"
  shows "py_int v = p \<or> py_int v = p + 1"
proof -
  have f: "p \<le> \<lfloor>v\<rfloor>" "\<lfloor>v\<rfloor> \<le> p + 1" using assms by (simp_all add: le_floor_iff floor_le_iff)
  have c: "p \<le> \<lceil>v\<rceil>" "\<lceil>v\<rceil> \<le> p + 1" using assms by (simp_all add: le_ceiling_iff ceiling_le_iff)
  show ?thesis using f c by (auto simp: py_int_def)
qed

lemma py_int_inside:
  assumes "of_int p < v" and "v < of_int p + 1"
  shows "0 \<le> p \<Longrightarrow> py_int v = p" and "p < 0 \<Longrightarrow> py_int v = p + 1"
proof -
  have fl: "\<lfloor>v\<rfloor> = p" using assms by (intro floor_unique) simp_all
  have ce: "\<lceil>v\<rceil> = p + 1" using assms by (intro ceiling_unique) simp_all
  show "py_int v = p" if "0 \<le> p"
  proof -
    from that have "(0::real) \<le> of_int p" by simp
    with assms(1) have "0 \<le> v" by linarith
    then show ?thesis by (simp add: py_int_def fl)
  qed
  show "py_int v = p + 1" if "p < 0"
  proof -
    from that have "p + 1 \<le> 0" by simp
    then have "(of_int (p + 1) :: real) \<le> 0" by (simp only: of_int_le_0_iff)
    with assms(2) have "\<not> 0 \<le> v" by simp
    then show ?thesis by (simp add: py_int_def ce)
  qed
qed

lemma timedelta_microseconds_Inr:
  "timedelta_microseconds t = Inr delta \<Longrightarrow>
   td_days delta = t div 1000000 div 86400 \<and> td_seconds delta = t div 1000000 mod 86400
   \<and> td_microseconds delta = t mod 1000000"
  by (auto simp: timedelta_microseconds_def Let_def split: if_splits)

lemma epoch_start_add:
  assumes "timedelta_microseconds t = Inr delta" and "datetime_add epoch_start delta = Inr dt"
  shows "wall_clock_seconds dt = t div 1000000 - 11644473600"
    and "dt_microsecond dt = t mod 1000000"
    and "\<bar>t div 1000000 - 11644473600\<bar> < 2 ^ 52"
proof -
  let ?s = "t div 1000000"
  note td = timedelta_microseconds_Inr [OF assms(1)]
  from assms(2) td have ord: "dt_ordinal dt = 584389 + ?s div 86400"
    and sd: "dt_second dt = ?s mod 86400" and mu: "dt_microsecond dt = t mod 1000000"
    and lo: "1 \<le> 584389 + ?s div 86400" and hi: "584389 + ?s div 86400 \<le> 3652059"
    by (auto simp: datetime_add_def epoch_start_eq MAXORDINAL_def Let_def
             split: if_splits)
  have s: "?s = ?s div 86400 * 86400 + ?s mod 86400" by simp
  show "wall_clock_seconds dt = ?s - 11644473600"
    using ord sd s by (simp add: wall_clock_seconds_eq)
  show "dt_microsecond dt = t mod 1000000" by (rule mu)
  have m: "0 \<le> ?s mod 86400" "?s mod 86400 < 86400" by simp_all
  show "\<bar>?s - 11644473600\<bar> < 2 ^ 52"
    using lo hi s m by simp
qed

lemma local_time_utc:
  "utc_local w \<Longrightarrow> local_time w u = Inr v \<Longrightarrow> v = u"
  by (auto simp: local_time_def utc_local_def split: if_splits)

lemma local_to_seconds_utc:
  assumes "utc_local w" and "local_to_seconds w t = Inr u"
  shows "u = t"
proof -
  have lt: "local_time w x = (if year_in_range x then Inr x else Inl ValueError)" for x
    using assms(1) by (simp add: local_time_def utc_local_def)
  show ?thesis
    using assms(2)
    by (auto simp: local_to_seconds_def local_to_seconds_second_def lt Let_def split: if_splits)
qed

lemma Chrome_expires_nonzero:
  assumes "t \<noteq> 0" and "Chrome_expires w t = Inr x" and "utc_local w"
  shows "x = ExpiresFloat (double w (of_int (t div 1000000 - 11644473600)
                             + double w (of_int (t mod 1000000) / 1000000)))"
    and "\<bar>t div 1000000 - 11644473600\<bar> < 2 ^ 52"
proof -
  from assms obtain delta dt ts where
    td: "timedelta_microseconds t = Inr delta" and
    add: "datetime_add epoch_start delta = Inr dt" and
    ts: "timestamp w dt = Inr ts" and x: "x = ExpiresFloat ts"
    by (auto simp: Chrome_expires_def split: sum.splits)
  note e = epoch_start_add [OF td add]
  show "\<bar>t div 1000000 - 11644473600\<bar> < 2 ^ 52" by (rule e(3))
  from ts obtain u where u: "local_to_seconds w (wall_clock_seconds dt) = Inr u"
    and tsu: "ts = double w (of_int u + double w (of_int (dt_microsecond dt) / 1000000))"
    by (auto simp: timestamp_def split: sum.splits)
  from local_to_seconds_utc [OF assms(3) u] have "u = wall_clock_seconds dt" .
  with tsu e(1,2) x
  show "x = ExpiresFloat (double w (of_int (t div 1000000 - 11644473600)
                             + double w (of_int (t mod 1000000) / 1000000)))"
    by simp
qed

lemma double_exact_dyadic_exact: "double_exact_dyadic w \<Longrightarrow> double_exact w"
proof -
  assume d: "double_exact_dyadic w"
  have "double w (of_int n) = of_int n" if "\<bar>n\<bar> \<le> 2 ^ 53" for n
    using d [unfolded double_exact_dyadic_def, rule_format, of n 0] that by simp
  then show ?thesis by (simp add: double_exact_def)
qed

lemma double_fraction:
  assumes "double_exact w" and "double_mono w" and "0 \<le> m" and "m < 1000000"
  shows "0 \<le> double w (of_int m / 1000000)" and "double w (of_int m / 1000000) \<le> 1"
proof -
  have z: "double w 0 = 0" and o: "double w 1 = 1"
    using assms(1) [unfolded double_exact_def, rule_format, of 0]
          assms(1) [unfolded double_exact_def, rule_format, of 1] by simp_all
  have "(0::real) \<le> of_int m / 1000000" "of_int m / 1000000 \<le> (1::real)"
    using assms(3,4) by simp_all
  then have "double w 0 \<le> double w (of_int m / 1000000)" "double w (of_int m / 1000000) \<le> double w 1"
    using assms(2) unfolding double_mono_def by blast+
  then show "0 \<le> double w (of_int m / 1000000)" and "double w (of_int m / 1000000) \<le> 1"
    using z o by simp_all
qed

lemma double_timestamp_between:
  assumes "double_exact w" and "double_mono w" and "0 \<le> m" and "m < 1000000"
    and "\<bar>p\<bar> < 2 ^ 52"
  shows "py_int (double w (of_int p + double w (of_int m / 1000000))) \<in> {p, p + 1}"
    and "m = 0 \<Longrightarrow> py_int (double w (of_int p + double w (of_int m / 1000000))) = p"
proof -
  let ?f = "double w (of_int m / 1000000)"
  note f = double_fraction [OF assms(1-4)]
  have ep: "double w (of_int p) = of_int p"
    using assms(1) [unfolded double_exact_def, rule_format, of p] assms(5) by simp
  have ep1: "double w (of_int p + 1) = of_int p + 1"
    using assms(1) [unfolded double_exact_def, rule_format, of "p + 1"] assms(5) by simp
  have "of_int p \<le> of_int p + ?f" "of_int p + ?f \<le> of_int p + 1" using f by simp_all
  then have "double w (of_int p) \<le> double w (of_int p + ?f)"
    "double w (of_int p + ?f) \<le> double w (of_int p + 1)"
    using assms(2) unfolding double_mono_def by blast+
  then have "of_int p \<le> double w (of_int p + ?f)" "double w (of_int p + ?f) \<le> of_int p + 1"
    using ep ep1 by simp_all
  then show "py_int (double w (of_int p + ?f)) \<in> {p, p + 1}"
    using py_int_between by auto
  assume "m = 0"
  moreover have "double w 0 = 0"
    using assms(1) [unfolded double_exact_def, rule_format, of 0] by simp
  ultimately show "py_int (double w (of_int p + ?f)) = p"
    using ep by (simp add: py_int_def)
qed

lemma double_timestamp_inside:
  assumes dd: "double_exact_dyadic w" and dm: "double_mono w"
    and m: "1 \<le> m" "m < 1000000" and p: "- (2 ^ 33) < p" "p < 2 ^ 33"
  shows "of_int p < double w (of_int p + double w (of_int m / 1000000))"
    and "double w (of_int p + double w (of_int m / 1000000)) < of_int p + 1"
proof -
  let ?f = "double w (of_int m / 1000000)"
  have e1: "double w (1 / 2 ^ 20) = 1 / 2 ^ 20"
    using dd [unfolded double_exact_dyadic_def, rule_format, of 1 20] by simp
  have e2: "double w (1048575 / 2 ^ 20) = 1048575 / 2 ^ 20"
    using dd [unfolded double_exact_dyadic_def, rule_format, of 1048575 20] by simp
  have "(1::real) / 2 ^ 20 \<le> of_int m / 1000000" "of_int m / 1000000 \<le> (1048575::real) / 2 ^ 20"
    using m by simp_all
  then have "double w (1 / 2 ^ 20) \<le> ?f" "?f \<le> double w (1048575 / 2 ^ 20)"
    using dm unfolding double_mono_def by blast+
  then have f: "1 / 2 ^ 20 \<le> ?f" "?f \<le> 1048575 / 2 ^ 20" using e1 e2 by simp_all
  have k1: "\<bar>p * 2 ^ 20 + 1\<bar> \<le> 2 ^ 53" and k2: "\<bar>p * 2 ^ 20 + 1048575\<bar> \<le> 2 ^ 53"
    using p by simp_all
  have r1: "(of_int (p * 2 ^ 20 + 1) :: real) / 2 ^ 20 = of_int p + 1 / 2 ^ 20"
    and r2: "(of_int (p * 2 ^ 20 + 1048575) :: real) / 2 ^ 20 = of_int p + 1048575 / 2 ^ 20"
    by (simp_all add: field_simps)
  have x1: "double w (of_int p + 1 / 2 ^ 20) = of_int p + 1 / 2 ^ 20"
    using dd [unfolded double_exact_dyadic_def, rule_format, of "p * 2 ^ 20 + 1" 20] k1
    unfolding r1 by simp
  have x2: "double w (of_int p + 1048575 / 2 ^ 20) = of_int p + 1048575 / 2 ^ 20"
    using dd [unfolded double_exact_dyadic_def, rule_format, of "p * 2 ^ 20 + 1048575" 20] k2
    unfolding r2 by simp
  have "of_int p + 1 / 2 ^ 20 \<le> of_int p + ?f" "of_int p + ?f \<le> of_int p + 1048575 / 2 ^ 20"
    using f by simp_all
  then have "double w (of_int p + 1 / 2 ^ 20) \<le> double w (of_int p + ?f)"
    "double w (of_int p + ?f) \<le> double w (of_int p + 1048575 / 2 ^ 20)"
    using dm unfolding double_mono_def by blast+
  then have b: "of_int p + 1 / 2 ^ 20 \<le> double w (of_int p + ?f)"
    "double w (of_int p + ?f) \<le> of_int p + 1048575 / 2 ^ 20"
    using x1 x2 by simp_all
  show "of_int p < double w (of_int p + ?f)" using b(1) by simp
  show "double w (of_int p + ?f) < of_int p + 1" using b(2) by simp
qed


lemma double_nearest_exact_dyadic: "double_nearest w \<Longrightarrow> double_exact_dyadic w"
proof -
  assume d: "double_nearest w"
  have "double w (of_int k / 2 ^ n) = of_int k / 2 ^ n" if "\<bar>k\<bar> \<le> 2 ^ 53" "n \<le> 1021" for k n
    using d [unfolded double_nearest_def, rule_format, of k n "of_int k / 2 ^ n"] that by simp
  then show ?thesis by (simp add: double_exact_dyadic_def)
qed

lemma double_fraction_near:
  assumes dn: "double_nearest w" and m: "0 \<le> m" "m < 1000000"
  shows "double w (of_int m / 1000000) \<le> of_int m / 1000000 + 1 / 2 ^ 53"
proof -
  let ?f = "of_int m / 1000000 :: real"
  let ?k = "\<lfloor>?f * 2 ^ 53\<rfloor>"
  have f: "0 \<le> ?f" "?f < 1" using m by simp_all
  have k0: "0 \<le> ?k" using f(1) by simp
  have "?f * 2 ^ 53 < 2 ^ 53" using f(2) by simp
  then have "?k < 2 ^ 53" by (simp add: floor_less_iff)
  with k0 have kb: "\<bar>?k\<bar> \<le> 2 ^ 53" by simp
  have lo: "of_int ?k \<le> ?f * 2 ^ 53" and hi: "?f * 2 ^ 53 < of_int ?k + 1"
    by linarith+
  have "\<bar>of_int ?k / 2 ^ 53 - ?f\<bar> \<le> 1 / 2 ^ 53"
  proof -
    have "of_int ?k / 2 ^ 53 \<le> ?f" using lo by (simp add: field_simps)
    moreover have "?f < (of_int ?k + 1) / 2 ^ 53" using hi by (simp add: field_simps)
    ultimately show ?thesis by (simp add: field_simps)
  qed
  moreover have "\<bar>double w ?f - ?f\<bar> \<le> \<bar>of_int ?k / 2 ^ 53 - ?f\<bar>"
    using dn [unfolded double_nearest_def, rule_format, of ?k 53 ?f] kb by simp
  ultimately show ?thesis by linarith
qed

lemma double_timestamp_below_next:
  assumes dn: "double_nearest w" and dm: "double_mono w"
    and m: "0 \<le> m" "m < 1000000" and p: "- (2 ^ 34) \<le> p" "p < 2 ^ 34"
  shows "double w (of_int p + double w (of_int m / 1000000)) < of_int p + 1"
proof -
  let ?F = "double w (of_int m / 1000000)"
  let ?x = "of_int p + ?F"
  let ?y = "of_int p + 1 - 1 / 2 ^ 19 :: real"
  have F: "?F \<le> 999999 / 1000000 + 1 / 2 ^ 53"
  proof -
    from m(2) have "m \<le> 999999" by simp
    then have "(of_int m :: real) \<le> 999999" by (metis of_int_le_iff of_int_numeral)
    then have "(of_int m :: real) / 1000000 \<le> 999999 / 1000000" by simp
    with double_fraction_near [OF dn m] show ?thesis by linarith
  qed
  have kb: "\<bar>(p + 1) * 2 ^ 19 - 1\<bar> \<le> 2 ^ 53" using p by simp
  have ry: "(of_int ((p + 1) * 2 ^ 19 - 1) :: real) / 2 ^ 19 = ?y"
    by (simp add: field_simps)
  have near: "\<bar>double w ?x - ?x\<bar> \<le> \<bar>?y - ?x\<bar>"
    using dn [unfolded double_nearest_def, rule_format, of "(p + 1) * 2 ^ 19 - 1" 19 ?x] kb
    unfolding ry by simp
  have ey: "double w ?y = ?y"
    using dn [unfolded double_nearest_def, rule_format, of "(p + 1) * 2 ^ 19 - 1" 19 ?y] kb
    unfolding ry by simp
  show ?thesis
  proof (cases "?x \<le> ?y")
    case True
    then have "double w ?x \<le> double w ?y" using dm unfolding double_mono_def by blast
    with ey show ?thesis by simp
  next
    case False
    with near have "double w ?x \<le> ?x + (?x - ?y)" by linarith
    with F show ?thesis by simp
  qed
qed

lemma double_timestamp_at_least:
  assumes "double_exact w" and "double_mono w" and "0 \<le> m" and "m < 1000000"
    and "\<bar>p\<bar> < 2 ^ 52"
  shows "of_int p \<le> double w (of_int p + double w (of_int m / 1000000))"
proof -
  let ?f = "double w (of_int m / 1000000)"
  note f = double_fraction [OF assms(1-4)]
  have ep: "double w (of_int p) = of_int p"
    using assms(1) [unfolded double_exact_def, rule_format, of p] assms(5) by simp
  have "of_int p \<le> of_int p + ?f" using f by simp
  then have "double w (of_int p) \<le> double w (of_int p + ?f)"
    using assms(2) unfolding double_mono_def by blast
  then show ?thesis using ep by simp
qed

lemma Chrome_item_cookie_expires:
  "Chrome_item_cookie w self item = Inr c \<Longrightarrow>
   \<exists>x. Chrome_expires w (expires_utc item) = Inr x \<and> cookie_expires c = Some (int_float w x)"
  by (auto simp: Chrome_item_cookie_def create_cookie_def split: sum.splits)

text \<open>
  C4, as the code has it. For a row that yields a cookie, on a machine whose local time
  is UTC: a zero \<open>expires_utc\<close> is passed on unconverted and the cookie expires at 0 (a
  fixed expiry at the epoch, not an absent one). For a non-zero \<open>expires_utc\<close>, in
  microseconds since 1601-01-01, let \<open>p\<close> be the whole seconds since 1970-01-01, that is
  \<open>expires_utc div 1000000 - 11644473600\<close>. The cookie expires at \<open>p\<close> when the timestamp
  is a whole number of seconds, and also when \<open>p\<close> is from 0 up to \<open>2 ^ 34\<close> (from 1970
  to 2514); it expires at \<open>p + 1\<close> when \<open>p\<close> is negative, down to \<open>- 2 ^ 33\<close>, and the
  timestamp has a fraction of a second, since \<open>int\<close> truncates towards zero; and in
  every case it expires at \<open>p\<close> or at \<open>p + 1\<close>.
\<close>

theorem chrome_expiry_conversion:
  assumes "double_nearest w" and "double_mono w" and "utc_local w"
    and "Chrome_item_cookie w self item = Inr c"
  shows "(expires_utc item = 0 \<longrightarrow> cookie_expires c = Some 0)
       \<and> (expires_utc item \<noteq> 0 \<longrightarrow>
            (cookie_expires c = Some (expires_utc item div 1000000 - 11644473600)
             \<or> cookie_expires c = Some (expires_utc item div 1000000 - 11644473600 + 1))
          \<and> (expires_utc item mod 1000000 = 0 \<longrightarrow>
               cookie_expires c = Some (expires_utc item div 1000000 - 11644473600))
          \<and> (0 \<le> expires_utc item div 1000000 - 11644473600
              \<and> expires_utc item div 1000000 - 11644473600 < 2 ^ 34 \<longrightarrow>
               cookie_expires c = Some (expires_utc item div 1000000 - 11644473600))
          \<and> (- (2 ^ 33) < expires_utc item div 1000000 - 11644473600
              \<and> expires_utc item div 1000000 - 11644473600 < 0
              \<and> expires_utc item mod 1000000 \<noteq> 0 \<longrightarrow>
               cookie_expires c = Some (expires_utc item div 1000000 - 11644473600 + 1)))"
proof -
  let ?t = "expires_utc item"
  let ?p = "?t div 1000000 - 11644473600"
  let ?m = "?t mod 1000000"
  let ?v = "double w (of_int ?p + double w (of_int ?m / 1000000))"
  note dd = double_nearest_exact_dyadic [OF assms(1)]
  note de = double_exact_dyadic_exact [OF dd]
  from Chrome_item_cookie_expires [OF assms(4)] obtain x where
    x: "Chrome_expires w ?t = Inr x" and c: "cookie_expires c = Some (int_float w x)" by blast
  have zero: "cookie_expires c = Some 0" if "?t = 0"
  proof -
    have "double w 0 = 0"
      using de [unfolded double_exact_def, rule_format, of 0] by simp
    with x c that show ?thesis
      by (auto simp: Chrome_expires_def int_float_def py_int_def)
  qed
  have nonzero: "(cookie_expires c = Some ?p \<or> cookie_expires c = Some (?p + 1))
       \<and> (?m = 0 \<longrightarrow> cookie_expires c = Some ?p)
       \<and> (0 \<le> ?p \<and> ?p < 2 ^ 34 \<longrightarrow> cookie_expires c = Some ?p)
       \<and> (- (2 ^ 33) < ?p \<and> ?p < 0 \<and> ?m \<noteq> 0 \<longrightarrow> cookie_expires c = Some (?p + 1))"
    if nz: "?t \<noteq> 0"
  proof -
    note n = Chrome_expires_nonzero [OF nz x assms(3)]
    have m: "0 \<le> ?m" "?m < 1000000" by simp_all
    from c n(1) have cv: "cookie_expires c = Some (py_int ?v)" by (simp add: int_float_def)
    note r = double_timestamp_between [OF de assms(2) m n(2)]
    have a: "cookie_expires c = Some ?p \<or> cookie_expires c = Some (?p + 1)"
      using r(1) cv by auto
    have b: "cookie_expires c = Some ?p" if "?m = 0"
      using r(2) [OF that] cv by simp
    have inside: "of_int ?p < ?v \<and> ?v < of_int ?p + 1"
      if "?m \<noteq> 0" "- (2 ^ 33) < ?p" "?p < 2 ^ 33"
    proof -
      from that(1) m(1) have "1 \<le> ?m" by linarith
      from double_timestamp_inside [OF dd assms(2) this m(2) that(2,3)] show ?thesis by blast
    qed
    have d: "cookie_expires c = Some ?p" if "0 \<le> ?p" "?p < 2 ^ 34"
    proof -
      have "- (2 ^ 34) \<le> (0::int)" by simp
      with that(1) have lo: "- (2 ^ 34) \<le> ?p" by linarith
      note up = double_timestamp_below_next [OF assms(1,2) m lo that(2)]
      note low = double_timestamp_at_least [OF de assms(2) m n(2)]
      from low up have "\<lfloor>?v\<rfloor> = ?p" by (intro floor_unique) simp_all
      moreover from that(1) have "(0::real) \<le> of_int ?p" by simp
      with low have "0 \<le> ?v" by linarith
      ultimately have "py_int ?v = ?p" by (simp add: py_int_def)
      with cv show ?thesis by simp
    qed
    have e: "cookie_expires c = Some (?p + 1)" if "- (2 ^ 33) < ?p" "?p < 0" "?m \<noteq> 0"
    proof -
      have "(0::int) < 2 ^ 33" by simp
      with that(2) have "?p < 2 ^ 33" by linarith
      from inside [OF that(3,1) this] py_int_inside(2) [of ?p ?v] that(2) cv
      show ?thesis by simp
    qed
    show ?thesis using a b d e by blast
  qed
  show ?thesis using zero nonzero by blast
qed

lemmas chrome_eval =
  Chrome_item_cookie_def Chrome_expires_def linux_world_def linux_chrome_def Chrome_decrypt_def
  create_cookie_def startswith_dot_def timedelta_microseconds_def datetime_add_def
  epoch_start_eq MAXORDINAL_def timestamp_def wall_clock_seconds_eq Let_def
  local_to_seconds_def local_to_seconds_second_def local_time_def year_in_range_eq
  max_fold_seconds_def int_float_def py_int_def

text \<open>
  The row with a zero timestamp has the expiry 0, not none. One hour ahead of UTC the
  sample row, which expires 1355526400 seconds after 1970-01-01, gets the expiry
  1355522800. With IEEE floats, the row expiring 4.5 seconds before 1970-01-01 gets the
  expiry -4, and the rows expiring one microsecond before the seconds 17179869185 and
  253402214400 get the expiries 17179869185 and 253402214400.
\<close>

theorem zero_timestamp_counterexample:
  "map_sum id cookie_expires (Chrome_item_cookie linux_world linux_chrome zero_item) = Inr (Some 0)
   \<and> map_sum id cookie_expires (Chrome_item_cookie paris_world linux_chrome sample_item)
       = Inr (Some 1355522800)
   \<and> expires_utc sample_item div 1000000 - 11644473600 = 1355526400
   \<and> map_sum id cookie_expires (Chrome_item_cookie ieee_world linux_chrome before_1970_item)
       = Inr (Some (- 4))
   \<and> expires_utc before_1970_item div 1000000 - 11644473600 = - 5
   \<and> map_sum id cookie_expires (Chrome_item_cookie ieee_world linux_chrome year_2514_item)
       = Inr (Some 17179869185)
   \<and> expires_utc year_2514_item div 1000000 - 11644473600 = 17179869184
   \<and> map_sum id cookie_expires (Chrome_item_cookie ieee_world linux_chrome far_future_item)
       = Inr (Some 253402214400)
   \<and> expires_utc far_future_item div 1000000 - 11644473600 = 253402214399"
proof -
  have a: "map_sum id cookie_expires (Chrome_item_cookie linux_world linux_chrome zero_item)
      = Inr (Some 0)"
    by (simp add: chrome_eval zero_item_def sample_item_def)
  have b: "map_sum id cookie_expires (Chrome_item_cookie paris_world linux_chrome sample_item)
       = Inr (Some 1355522800)"
    by (simp add: chrome_eval paris_world_def sample_item_def)
  have f2: "round_double (round_double (1 / 2) - 5) = - (9 / 2)"
    by (simp add: round_double_def scale_to_53_bits.simps round_half_even_def)
  have c: "map_sum id cookie_expires (Chrome_item_cookie ieee_world linux_chrome before_1970_item)
       = Inr (Some (- 4))"
    by (simp add: chrome_eval ieee_world_def before_1970_item_def sample_item_def f2)
  have f3: "round_double (17179869184 + round_double (999999 / 1000000)) = 17179869185"
    by (simp add: round_double_def scale_to_53_bits.simps round_half_even_def)
  have g: "map_sum id cookie_expires (Chrome_item_cookie ieee_world linux_chrome year_2514_item)
       = Inr (Some 17179869185)"
    by (simp add: chrome_eval ieee_world_def year_2514_item_def sample_item_def f3)
  have f4: "round_double (253402214399 + round_double (999999 / 1000000)) = 253402214400"
    by (simp add: round_double_def scale_to_53_bits.simps round_half_even_def)
  have d: "map_sum id cookie_expires (Chrome_item_cookie ieee_world linux_chrome far_future_item)
       = Inr (Some 253402214400)"
    by (simp add: chrome_eval ieee_world_def far_future_item_def sample_item_def f4)
  show ?thesis
    using a b c d g
    by (simp add: sample_item_def before_1970_item_def far_future_item_def year_2514_item_def)
qed


theorem chrome_expiry_conversion_witness:
  "(\<exists>c. Chrome_item_cookie linux_world linux_chrome zero_item = Inr c \<and> cookie_expires c = Some 0)
   \<and> (\<exists>c. Chrome_item_cookie linux_world linux_chrome sample_item = Inr c
          \<and> cookie_expires c = Some 1355526400)
   \<and> (\<exists>c. Chrome_item_cookie linux_world linux_chrome other_item = Inr c
          \<and> cookie_expires c = Some 1355526400)
   \<and> (\<exists>c. Chrome_item_cookie linux_world linux_chrome before_1970_item = Inr c
          \<and> cookie_expires c = Some (- 4))"
proof -
  have d: "double_nearest linux_world" by (simp add: double_nearest_def linux_world_def)
  have m: "double_mono linux_world" by (simp add: double_mono_def linux_world_def)
  have u: "utc_local linux_world" by (simp add: utc_local_def linux_world_def)
  obtain c0 where c0: "Chrome_item_cookie linux_world linux_chrome zero_item = Inr c0"
    by (simp add: chrome_eval zero_item_def sample_item_def)
  obtain c1 where c1: "Chrome_item_cookie linux_world linux_chrome sample_item = Inr c1"
    by (simp add: chrome_eval sample_item_def)
  obtain c2 where c2: "Chrome_item_cookie linux_world linux_chrome other_item = Inr c2"
    by (simp add: chrome_eval other_item_def)
  obtain c3 where c3: "Chrome_item_cookie linux_world linux_chrome before_1970_item = Inr c3"
    by (simp add: chrome_eval before_1970_item_def sample_item_def)
  have z: "expires_utc zero_item = 0" by (simp add: zero_item_def)
  have s: "expires_utc sample_item = 13000000000000000" by (simp add: sample_item_def)
  have t: "expires_utc other_item = 13000000000500000" by (simp add: other_item_def)
  have b: "expires_utc before_1970_item = 11644473595500000" by (simp add: before_1970_item_def)
  from chrome_expiry_conversion [OF d m u c0] z have "cookie_expires c0 = Some 0" by simp
  moreover from chrome_expiry_conversion [OF d m u c1] s
  have "cookie_expires c1 = Some 1355526400" by simp
  moreover from chrome_expiry_conversion [OF d m u c2] t
  have "cookie_expires c2 = Some 1355526400" by simp
  moreover from chrome_expiry_conversion [OF d m u c3] b
  have "cookie_expires c3 = Some (- 4)" by simp
  ultimately show ?thesis using c0 c1 c2 c3 by blast
qed

section \<open>Properties of the batch of rows\<close>

lemma timedelta_microseconds_error:
  "timedelta_microseconds t = Inl e \<Longrightarrow> e = OverflowError"
  unfolding timedelta_microseconds_def Let_def by (simp split: if_splits)

lemma datetime_add_error:
  "datetime_add dt delta = Inl e \<Longrightarrow> e = OverflowError"
  unfolding datetime_add_def Let_def by (simp split: if_splits)

lemma local_time_error:
  "local_time w u = Inl e \<Longrightarrow> e = OverflowError \<or> e = OSError \<or> e = ValueError"
  unfolding local_time_def tm_error_to_error_def
  by (cases "localtime w u") (auto split: tm_error.splits if_splits)

lemma local_to_seconds_second_error:
  "local_to_seconds_second w t u1 t1 b = Inl e \<Longrightarrow>
   e = OverflowError \<or> e = OSError \<or> e = ValueError"
  unfolding local_to_seconds_second_def Let_def
  by (cases "local_time w (t - b)") (auto dest: local_time_error split: if_splits)

lemma local_to_seconds_error:
  assumes "local_to_seconds w t = Inl e"
  shows "e = OverflowError \<or> e = OSError \<or> e = ValueError"
proof (cases "local_time w t")
  case (Inl e1)
  with assms local_time_error [OF Inl] show ?thesis by (simp add: local_to_seconds_def)
next
  case (Inr lt)
  show ?thesis
  proof (cases "local_time w (t - (lt - t))")
    case (Inl e2)
    with assms Inr local_time_error [OF Inl] show ?thesis
      by (simp add: local_to_seconds_def Let_def)
  next
    case t1: (Inr t1)
    show ?thesis
    proof (cases "t1 = t")
      case False
      with assms Inr t1 show ?thesis
        by (auto simp: local_to_seconds_def Let_def dest: local_to_seconds_second_error)
    next
      case True
      show ?thesis
      proof (cases "local_time w (t - (lt - t) - max_fold_seconds)")
        case (Inl e3)
        with assms Inr t1 True local_time_error [OF Inl] show ?thesis
          by (simp add: local_to_seconds_def Let_def)
      next
        case lt2: (Inr lt2)
        with assms Inr t1 True show ?thesis
          by (auto simp: local_to_seconds_def Let_def dest: local_to_seconds_second_error
                split: if_splits)
      qed
    qed
  qed
qed

lemma timestamp_error:
  "timestamp w dt = Inl e \<Longrightarrow> e = OverflowError \<or> e = OSError \<or> e = ValueError"
  unfolding timestamp_def
  by (cases "local_to_seconds w (wall_clock_seconds dt)") (auto dest: local_to_seconds_error)

lemma Chrome_expires_errors:
  assumes "Chrome_expires w t = Inl e"
  shows "e = OverflowError \<or> e = OSError \<or> e = ValueError"
proof (cases "timedelta_microseconds t")
  case (Inl e1)
  with assms timedelta_microseconds_error [OF Inl] show ?thesis
    by (simp add: Chrome_expires_def split: if_splits)
next
  case (Inr delta)
  show ?thesis
  proof (cases "datetime_add epoch_start delta")
    case (Inl e2)
    with assms Inr datetime_add_error [OF Inl] show ?thesis
      by (simp add: Chrome_expires_def split: if_splits)
  next
    case dt: (Inr dt)
    show ?thesis
    proof (cases "timestamp w dt")
      case (Inl e3)
      with assms Inr dt timestamp_error [OF Inl] show ?thesis
        by (simp add: Chrome_expires_def split: if_splits)
    next
      case ts: (Inr ts)
      with assms Inr dt show ?thesis
        by (simp add: Chrome_expires_def split: if_splits)
    qed
  qed
qed

lemma Chrome_item_step_overflows:
  assumes "timestamp_overflows w item"
  shows "\<exists>e. Chrome_item_step w self cj item = Inl e \<and> (e = OverflowError \<or> e = OSError)"
  using assms
  by (auto simp: timestamp_overflows_def Chrome_item_step_def Chrome_item_cookie_def)

lemma Chrome_item_step_other_error:
  assumes "timestamp_invalid w item" and "\<not> timestamp_overflows w item"
  shows "Chrome_item_step w self cj item = Inl ValueError"
proof -
  from assms(1) obtain e where e: "Chrome_expires w (expires_utc item) = Inl e"
    by (auto simp: timestamp_invalid_def split: sum.splits)
  with assms(2) Chrome_expires_errors [OF e] have "e = ValueError"
    by (auto simp: timestamp_overflows_def)
  with e show ?thesis by (simp add: Chrome_item_step_def Chrome_item_cookie_def)
qed

lemma Chrome_item_step_valid:
  assumes "Chrome_item_cookie w self item = Inr c"
  shows "Chrome_item_step w self cj item = Inr (cj(cookie_key c \<mapsto> c))"
proof -
  from assms have "cookie_path c = PStr (item_path item)" "cookie_name c = PStr (item_name item)"
    by (auto simp: Chrome_item_cookie_def dest!: create_cookie_fields split: sum.splits)
  then show ?thesis using assms by (simp add: Chrome_item_step_def set_cookie_def)
qed

lemma valid_cookies_overflows:
  assumes "timestamp_overflows w item"
  shows "valid_cookies w self (item # items) = valid_cookies w self items"
  using assms
  by (auto simp: valid_cookies_def timestamp_overflows_def Chrome_item_cookie_def)

lemma Chrome_items_skip:
  "Chrome_items w self cj items
   = Chrome_items w self cj (filter (\<lambda>item. \<not> timestamp_overflows w item) items)"
proof (induction items arbitrary: cj)
  case Nil
  show ?case by simp
next
  case (Cons item items)
  show ?case
  proof (cases "timestamp_overflows w item")
    case True
    from Chrome_item_step_overflows [OF True, of self cj] obtain e where
      "Chrome_item_step w self cj item = Inl e" "e = OverflowError \<or> e = OSError" by blast
    then have "Chrome_items w self cj (item # items) = Chrome_items w self cj items" by auto
    with True Cons.IH [of cj] show ?thesis by simp
  next
    case False
    then show ?thesis using Cons.IH by (simp split: sum.splits)
  qed
qed

lemma Chrome_items_append:
  "\<forall>item \<in> set pre. timestamp_overflows w item \<or> row_valid w self item \<Longrightarrow>
   Chrome_items w self cj (pre @ rest)
   = Chrome_items w self (jar_of cj (valid_cookies w self pre)) rest"
proof (induction pre arbitrary: cj)
  case Nil
  show ?case by (simp add: jar_of_def valid_cookies_def)
next
  case (Cons item pre)
  then have ih: "Chrome_items w self cj' (pre @ rest)
      = Chrome_items w self (jar_of cj' (valid_cookies w self pre)) rest" for cj'
    by simp
  show ?case
  proof (cases "timestamp_overflows w item")
    case True
    from Chrome_item_step_overflows [OF True, of self cj] obtain e where
      e: "Chrome_item_step w self cj item = Inl e" "e = OverflowError \<or> e = OSError" by blast
    with valid_cookies_overflows [OF True, of self pre] ih [of cj] show ?thesis by auto
  next
    case False
    with Cons.prems obtain c where c: "Chrome_item_cookie w self item = Inr c"
      by (auto simp: row_valid_def split: sum.splits)
    then have "valid_cookies w self (item # pre) = c # valid_cookies w self pre"
      by (simp add: valid_cookies_def)
    with Chrome_item_step_valid [OF c, of cj] ih [of "cj(cookie_key c \<mapsto> c)"]
    show ?thesis by (simp add: jar_of_def)
  qed
qed

lemma Chrome_items_valid:
  "\<forall>item \<in> set items. timestamp_overflows w item \<or> row_valid w self item \<Longrightarrow>
   Chrome_items w self cj items = Inr (jar_of cj (valid_cookies w self items))"
  using Chrome_items_append [of items w self cj "[]"] by simp

lemma dom_jar_of: "dom (jar_of cj cs) = dom cj \<union> cookie_key ` set cs"
  unfolding jar_of_def by (induction cs arbitrary: cj) auto

text \<open>
  C7, as the code has it. A batch gives the same result as the batch without the rows
  whose timestamp conversion raises \<open>OverflowError\<close> or \<open>OSError\<close>: each such row is
  skipped on its own. When every other row is valid, the batch returns a jar, the one
  made of the cookies of the valid rows, and the jar holds a cookie under the key of
  every valid row. A row whose timestamp is invalid in another way (its conversion
  raises \<open>ValueError\<close>) is not skipped: when the rows before it are skipped or valid,
  the batch raises \<open>ValueError\<close> and returns no row.
\<close>

theorem overflowing_rows_skipped:
  "Chrome_items w self cj items
     = Chrome_items w self cj (filter (\<lambda>item. \<not> timestamp_overflows w item) items)
   \<and> ((\<forall>item \<in> set items. timestamp_overflows w item \<or> row_valid w self item) \<longrightarrow>
        Chrome_items w self cj items = Inr (jar_of cj (valid_cookies w self items))
        \<and> (\<forall>item \<in> set items. \<forall>c. Chrome_item_cookie w self item = Inr c \<longrightarrow>
              cookie_key c \<in> dom (jar_of cj (valid_cookies w self items))))
   \<and> ((\<forall>item \<in> set pre. timestamp_overflows w item \<or> row_valid w self item)
        \<and> timestamp_invalid w bad \<and> \<not> timestamp_overflows w bad \<longrightarrow>
        Chrome_items w self cj (pre @ bad # post) = Inl ValueError)"
proof -
  have k: "cookie_key c \<in> dom (jar_of cj (valid_cookies w self items))"
    if "item \<in> set items" "Chrome_item_cookie w self item = Inr c" for item c
  proof -
    from that have "c \<in> set (valid_cookies w self items)"
      by (force simp: valid_cookies_def)
    then show ?thesis by (simp add: dom_jar_of)
  qed
  have a: "Chrome_items w self cj (pre @ bad # post) = Inl ValueError"
    if "\<forall>item \<in> set pre. timestamp_overflows w item \<or> row_valid w self item"
      and "timestamp_invalid w bad" and "\<not> timestamp_overflows w bad"
    using Chrome_items_append [OF that(1), of cj "bad # post"]
      Chrome_item_step_other_error [OF that(2,3)]
    by simp
  show ?thesis
    using Chrome_items_skip [of w self cj items] Chrome_items_valid [of items w self cj] k a
    by blast
qed

text \<open>
  On a machine on UTC a batch with a row expiring at noon of 0001-01-01, and one hour
  ahead of UTC a batch with a row expiring at the last second of the year 9999, raise
  \<open>ValueError\<close>, although the other rows of each batch are valid.
\<close>

theorem invalid_timestamp_aborts_counterexample:
  "timestamp_invalid linux_world year_1_item
   \<and> row_valid linux_world linux_chrome sample_item
   \<and> row_valid linux_world linux_chrome other_item
   \<and> Chrome_items linux_world linux_chrome Map.empty [sample_item, year_1_item, other_item]
       = Inl ValueError
   \<and> timestamp_invalid paris_world year_9999_item
   \<and> row_valid paris_world linux_chrome sample_item
   \<and> row_valid paris_world linux_chrome other_item
   \<and> Chrome_items paris_world linux_chrome Map.empty [sample_item, year_9999_item, other_item]
       = Inl ValueError"
proof -
  have e1: "Chrome_expires linux_world (expires_utc year_1_item) = Inl ValueError"
    by (simp add: chrome_eval year_1_item_def sample_item_def)
  have e2: "Chrome_expires paris_world (expires_utc year_9999_item) = Inl ValueError"
    by (simp add: chrome_eval paris_world_def year_9999_item_def sample_item_def)
  obtain c1 where c1: "Chrome_item_cookie linux_world linux_chrome sample_item = Inr c1"
    by (simp add: chrome_eval sample_item_def)
  obtain c2 where c2: "Chrome_item_cookie linux_world linux_chrome other_item = Inr c2"
    by (simp add: chrome_eval other_item_def)
  obtain c3 where c3: "Chrome_item_cookie paris_world linux_chrome sample_item = Inr c3"
    by (simp add: chrome_eval paris_world_def sample_item_def)
  obtain c4 where c4: "Chrome_item_cookie paris_world linux_chrome other_item = Inr c4"
    by (simp add: chrome_eval paris_world_def other_item_def)
  have s1: "Chrome_item_step linux_world linux_chrome cj year_1_item = Inl ValueError" for cj
    using e1 by (simp add: Chrome_item_step_def Chrome_item_cookie_def)
  have s2: "Chrome_item_step paris_world linux_chrome cj year_9999_item = Inl ValueError" for cj
    using e2 by (simp add: Chrome_item_step_def Chrome_item_cookie_def)
  have b1: "Chrome_items linux_world linux_chrome Map.empty [sample_item, year_1_item, other_item]
       = Inl ValueError"
    by (simp add: Chrome_item_step_valid [OF c1] s1)
  have b2: "Chrome_items paris_world linux_chrome Map.empty [sample_item, year_9999_item, other_item]
       = Inl ValueError"
    by (simp add: Chrome_item_step_valid [OF c3] s2)
  show ?thesis
    using e1 e2 c1 c2 c3 c4 b1 b2 by (simp add: timestamp_invalid_def row_valid_def)
qed


theorem overflowing_rows_skipped_witness:
  "Chrome_items linux_world linux_chrome Map.empty [sample_item, overflow_item, other_item]
     = Chrome_items linux_world linux_chrome Map.empty [sample_item, other_item]
   \<and> Chrome_items linux_world linux_chrome Map.empty [sample_item, overflow_item, other_item]
     = Inr (jar_of Map.empty
         (valid_cookies linux_world linux_chrome [sample_item, overflow_item, other_item]))
   \<and> (''.example.com'', PStr ''/'', PStr ''sid'')
       \<in> dom (jar_of Map.empty
         (valid_cookies linux_world linux_chrome [sample_item, overflow_item, other_item]))
   \<and> (''www.example.net'', PStr ''/a'', PStr ''lang'')
       \<in> dom (jar_of Map.empty
         (valid_cookies linux_world linux_chrome [sample_item, overflow_item, other_item]))
   \<and> Chrome_items linux_world linux_chrome Map.empty ([sample_item] @ year_1_item # [other_item])
     = Inl ValueError
   \<and> Chrome_expires no_negative_time_world (expires_utc before_1970_item) = Inl OSError
   \<and> Chrome_items no_negative_time_world linux_chrome Map.empty
         [sample_item, before_1970_item, other_item]
     = Chrome_items no_negative_time_world linux_chrome Map.empty [sample_item, other_item]"
proof -
  let ?items = "[sample_item, overflow_item, other_item]"
  let ?w = no_negative_time_world
  have o1: "Chrome_expires ?w (expires_utc before_1970_item) = Inl OSError"
    by (simp add: chrome_eval no_negative_time_world_def before_1970_item_def sample_item_def
          tm_error_to_error_def)
  obtain d1 where d1: "Chrome_item_cookie ?w linux_chrome sample_item = Inr d1"
    by (simp add: chrome_eval no_negative_time_world_def sample_item_def)
  obtain d2 where d2: "Chrome_item_cookie ?w linux_chrome other_item = Inr d2"
    by (simp add: chrome_eval no_negative_time_world_def other_item_def)
  have os: "timestamp_overflows ?w before_1970_item"
    using o1 by (simp add: timestamp_overflows_def)
  have on1: "\<not> timestamp_overflows ?w sample_item"
    using d1 by (auto simp: timestamp_overflows_def Chrome_item_cookie_def split: sum.splits)
  have on2: "\<not> timestamp_overflows ?w other_item"
    using d2 by (auto simp: timestamp_overflows_def Chrome_item_cookie_def split: sum.splits)
  have fo: "filter (\<lambda>item. \<not> timestamp_overflows ?w item)
              [sample_item, before_1970_item, other_item] = [sample_item, other_item]"
    using os on1 on2 by simp
  from overflowing_rows_skipped
    [of ?w linux_chrome Map.empty "[sample_item, before_1970_item, other_item]" "[]" year_1_item "[]"]
  have w2: "Chrome_items ?w linux_chrome Map.empty [sample_item, before_1970_item, other_item]
     = Chrome_items ?w linux_chrome Map.empty [sample_item, other_item]"
    unfolding fo by blast
  obtain c1 where c1: "Chrome_item_cookie linux_world linux_chrome sample_item = Inr c1"
    and k1: "cookie_key c1 = (''.example.com'', PStr ''/'', PStr ''sid'')"
    by (simp add: chrome_eval sample_item_def cookie_key_def ascii_lower_def)
  obtain c2 where c2: "Chrome_item_cookie linux_world linux_chrome other_item = Inr c2"
    and k2: "cookie_key c2 = (''www.example.net'', PStr ''/a'', PStr ''lang'')"
    by (simp add: chrome_eval other_item_def cookie_key_def ascii_lower_def)
  have bad: "timestamp_overflows linux_world overflow_item"
    by (simp add: timestamp_overflows_def chrome_eval overflow_item_def)
  have ok1: "\<not> timestamp_overflows linux_world sample_item"
    using c1 by (auto simp: timestamp_overflows_def Chrome_item_cookie_def split: sum.splits)
  have ok2: "\<not> timestamp_overflows linux_world other_item"
    using c2 by (auto simp: timestamp_overflows_def Chrome_item_cookie_def split: sum.splits)
  have all: "\<forall>item \<in> set ?items.
      timestamp_overflows linux_world item \<or> row_valid linux_world linux_chrome item"
    using c1 c2 bad by (simp add: row_valid_def)
  have pre: "\<forall>item \<in> set [sample_item].
      timestamp_overflows linux_world item \<or> row_valid linux_world linux_chrome item"
    using c1 by (simp add: row_valid_def)
  have e1: "Chrome_expires linux_world (expires_utc year_1_item) = Inl ValueError"
    by (simp add: chrome_eval year_1_item_def sample_item_def)
  have inv: "timestamp_invalid linux_world year_1_item"
    and nov: "\<not> timestamp_overflows linux_world year_1_item"
    using e1 by (simp_all add: timestamp_invalid_def timestamp_overflows_def)
  note t = overflowing_rows_skipped
    [of linux_world linux_chrome Map.empty ?items "[sample_item]" year_1_item "[other_item]"]
  have f: "filter (\<lambda>item. \<not> timestamp_overflows linux_world item) ?items
      = [sample_item, other_item]"
    using bad ok1 ok2 by simp
  from t have "Chrome_items linux_world linux_chrome Map.empty ?items
     = Chrome_items linux_world linux_chrome Map.empty [sample_item, other_item]"
    unfolding f by blast
  moreover from t all have "Chrome_items linux_world linux_chrome Map.empty ?items
     = Inr (jar_of Map.empty (valid_cookies linux_world linux_chrome ?items))"
    by blast
  moreover from t all c1 have "cookie_key c1
       \<in> dom (jar_of Map.empty (valid_cookies linux_world linux_chrome ?items))"
    by (meson list.set_intros(1))
  moreover from t all c2 have "cookie_key c2
       \<in> dom (jar_of Map.empty (valid_cookies linux_world linux_chrome ?items))"
    by (meson list.set_intros)
  moreover from t pre inv nov
  have "Chrome_items linux_world linux_chrome Map.empty ([sample_item] @ year_1_item # [other_item])
     = Inl ValueError"
    by blast
  ultimately show ?thesis using k1 k2 o1 w2 by simp
qed

section \<open>Properties of session recovery\<close>










end
